theory Spec2Isabelle
  imports Main
begin

section \<open>JavaScript values, errors and the outside world\<close>

text \<open>
  Values that flow through \<^verbatim>\<open>app/mcp-client.js\<close>: whatever \<^verbatim>\<open>JSON.parse\<close> may
  return, plus \<^verbatim>\<open>undefined\<close> (the result of reading a missing property). Numbers are
  opaque to the client; only their truthiness is ever inspected.
\<close>

datatype jsval =
    JUndefined
  | JNull
  | JBool bool
  | JNum int
  | JStr string
  | JArr "jsval list"
  | JObj "(string \<times> jsval) list"

fun truthy :: "jsval \<Rightarrow> bool" where
  "truthy JUndefined = False"
| "truthy JNull = False"
| "truthy (JBool b) = b"
| "truthy (JNum n) = (n \<noteq> 0)"
| "truthy (JStr s) = (s \<noteq> [])"
| "truthy (JArr xs) = True"
| "truthy (JObj kvs) = True"

fun nullish :: "jsval \<Rightarrow> bool" where
  "nullish JUndefined = True"
| "nullish JNull = True"
| "nullish v = False"

text \<open>
  Reading property \<open>k\<close> of a value that is neither \<^verbatim>\<open>null\<close> nor \<^verbatim>\<open>undefined\<close>. The
  keys read by the client (\<^verbatim>\<open>result\<close>, \<^verbatim>\<open>tools\<close>, \<^verbatim>\<open>name\<close>, \<^verbatim>\<open>description\<close>,
  \<^verbatim>\<open>inputSchema\<close>, \<^verbatim>\<open>input_schema\<close>) are not built-in properties of strings, numbers,
  booleans or arrays, so on those the read gives \<^verbatim>\<open>undefined\<close>.
\<close>

fun member :: "jsval \<Rightarrow> string \<Rightarrow> jsval" where
  "member (JObj kvs) k = (case map_of kvs k of Some v \<Rightarrow> v | None \<Rightarrow> JUndefined)"
| "member v k = JUndefined"

text \<open>
  A thrown value: its \<^verbatim>\<open>message\<close> and its \<^verbatim>\<open>status\<close> property (\<open>None\<close> when the
  property is absent, as on every error the runtime itself creates).
\<close>

datatype js_error = JsError (message: string) (status: "nat option")

text \<open>One HTTP exchange: what \<^verbatim>\<open>fetch\<close> is given and what it answers.\<close>

record request =
  endpoint :: string
  http_method :: string
  headers :: "(string \<times> string) list"
  jsonrpc :: string
  rpc_method :: string
  rpc_id :: int
  params :: jsval

record http_response =
  http_status :: nat
  statusText :: string
  body :: string
  location :: "string option"

text \<open>\<^verbatim>\<open>res.ok\<close>: the status is in the range 200-299.\<close>

definition ok :: "http_response \<Rightarrow> bool" where
  "ok res = (200 \<le> http_status res \<and> http_status res \<le> 299)"

record db_token =
  accessToken :: string

text \<open>A tool descriptor as \<^verbatim>\<open>_formatToolsData\<close> builds it.\<close>

record tool =
  name :: jsval
  description :: jsval
  input_schema :: jsval

text \<open>
  An entry of the conversation history, the message the LLM provider returns (an entry
  with a \<^verbatim>\<open>stop_reason\<close>), and a row of the message table.
\<close>

record turn =
  role :: string
  content :: jsval

record final_message = turn +
  stop_reason :: jsval

record db_message =
  db_role :: string
  db_content :: string

datatype level = Log | Warn | Err

text \<open>
  Everything the program does to the outside world is recorded, in order, in a trace,
  each external call with the answer it got.
\<close>

datatype effect =
    is_NetCall: NetCall request "js_error + http_response"
  | is_TokenLookup: TokenLookup string "js_error + db_token option"
  | is_AuthUrlRequest: AuthUrlRequest string string "js_error + string"
  | is_Console: Console level string
  | is_LlmCall: LlmCall "turn list" string "tool list" "js_error + final_message"
  | is_SaveMessage: SaveMessage string string string "js_error + unit"
  | is_HistoryFetch: HistoryFetch string "js_error + db_message list"
  | is_ToolService: ToolService string string

text \<open>
  The collaborators that are not part of \<^verbatim>\<open>mcp-client.js\<close> are parameters. Each
  external call is answered by a function of the number of external calls made so far
  (\<open>tick\<close>) and of its arguments, so the same request may be answered differently at
  different times. \<open>fetch\<close> stands for \<^verbatim>\<open>fetch\<close> followed by \<^verbatim>\<open>res.text()\<close>;
  \<open>getCustomerToken\<close> is \<^verbatim>\<open>db.server\<close>'s (a missing row is \<open>None\<close>);
  \<open>generateAuthUrl\<close> is \<^verbatim>\<open>auth.server\<close>'s and answers the \<^verbatim>\<open>url\<close> of its result;
  \<open>JSON_parse\<close> answers the parsed value or the message of the \<^verbatim>\<open>SyntaxError\<close>.
\<close>

record env =
  fetch :: "nat \<Rightarrow> request \<Rightarrow> js_error + http_response"
  getCustomerToken :: "nat \<Rightarrow> string \<Rightarrow> js_error + db_token option"
  generateAuthUrl :: "nat \<Rightarrow> string \<Rightarrow> string \<Rightarrow> js_error + string"
  JSON_parse :: "string \<Rightarrow> string + jsval"
  date_now :: "nat \<Rightarrow> int"
  url_hostname :: "string \<Rightarrow> js_error + string"
  STOREFRONT_BASE_URL :: "string option"
  ENABLE_CUSTOMER_MCP :: "string option"

section \<open>The MCP client\<close>

record MCPClient =
  shopDomain :: string
  conversationId :: string
  shopId :: string
  storefrontMcpEndpoint :: string
  customerMcpEndpoint :: string
  customerAccessToken :: string
  tools :: "tool list"
  customerTools :: "tool list"
  storefrontTools :: "tool list"

text \<open>The client object together with the clock and the trace of the world.\<close>

record state =
  this :: MCPClient
  tick :: nat
  trace :: "effect list"

definition emit :: "effect \<Rightarrow> state \<Rightarrow> state" where
  "emit e s = s\<lparr>trace := trace s @ [e]\<rparr>"

definition external :: "effect \<Rightarrow> state \<Rightarrow> state" where
  "external e s = s\<lparr>tick := Suc (tick s), trace := trace s @ [e]\<rparr>"

subsection \<open>Strings\<close>

text \<open>
  A string is held as the bytes of its UTF-8 encoding, as the source file holds its
  literals; a surrogate that stands alone is held as the three bytes that encode its code
  point. Equality and concatenation of strings are those of the byte lists. The source
  counts the code units of a string in one place only, \<^verbatim>\<open>text.slice(0, 200)\<close>, and a
  code unit is a UTF-16 one: a character encoded in one, two or three bytes is one unit, a
  character encoded in four bytes is two units (a surrogate pair).
\<close>

text \<open>The number of bytes of the character that begins with byte \<open>c\<close>.\<close>

definition utf8_width :: "char \<Rightarrow> nat" where
  "utf8_width c =
     (let b = (of_char c :: nat)
      in if 240 \<le> b then 4 else if 224 \<le> b then 3 else if 192 \<le> b then 2 else 1)"

text \<open>\<^verbatim>\<open>s.length\<close>: the number of code units of \<open>s\<close>.\<close>

fun code_units :: "string \<Rightarrow> nat" where
  "code_units [] = 0"
| "code_units (c # cs) =
     (if utf8_width c < 4 then 1 else 2) + code_units (drop (utf8_width c - 1) cs)"

text \<open>
  The first code unit (the high surrogate), standing alone, of the character encoded in
  the four bytes \<open>c # cs\<close>; fewer bytes are not a character.
\<close>

definition high_surrogate :: "char \<Rightarrow> string \<Rightarrow> string" where
  "high_surrogate c cs =
     (case map of_char cs of
        [b1, b2, b3] \<Rightarrow>
          (let cp = (of_char c mod 8) * 262144 + (b1 mod 64) * 4096 + (b2 mod 64) * 64
                      + (b3 mod 64 :: nat);
               hs = 55296 + (cp - 65536) div 1024
           in [char_of (224 + hs div 4096), char_of (128 + hs div 64 mod 64),
               char_of (128 + hs mod 64)])
      | _ \<Rightarrow> [])"

text \<open>
  \<^verbatim>\<open>s.slice(0, n)\<close>: the first \<open>n\<close> code units of \<open>s\<close>, or all of \<open>s\<close> when it has
  fewer. A slice that ends between the two units of a pair keeps the first of them.
\<close>

fun slice_0 :: "nat \<Rightarrow> string \<Rightarrow> string" where
  "slice_0 n [] = []"
| "slice_0 0 (c # cs) = []"
| "slice_0 (Suc n) (c # cs) =
     (let w = utf8_width c
      in if w < 4 then c # take (w - 1) cs @ slice_0 n (drop (w - 1) cs)
         else if n = 0 then high_surrogate c (take 3 cs)
         else c # take 3 cs @ slice_0 (n - 1) (drop 3 cs))"

definition lower_ascii :: "char \<Rightarrow> char" where
  "lower_ascii c =
     (let n = (of_char c :: nat) in if 65 \<le> n \<and> n \<le> 90 then char_of (n + 32) else c)"

definition has_prefix_ci :: "string \<Rightarrow> string \<Rightarrow> bool" where
  "has_prefix_ci p s = (map lower_ascii (take (length p) s) = p)"

definition has_suffix_ci :: "string \<Rightarrow> string \<Rightarrow> bool" where
  "has_suffix_ci p s =
     (length p \<le> length s \<and> map lower_ascii (drop (length s - length p) s) = p)"

text \<open>\<^verbatim>\<open>s.replace(/\/+$/, "")\<close>: the trailing slashes are removed.\<close>

definition strip_trailing_slashes :: "string \<Rightarrow> string" where
  "strip_trailing_slashes s = rev (dropWhile (\<lambda>c. c = CHR ''/'') (rev s))"

definition digit :: "nat \<Rightarrow> char" where
  "digit d = char_of (48 + d)"

fun dec :: "nat \<Rightarrow> string" where
  "dec n = (if n < 10 then [digit n] else dec (n div 10) @ [digit (n mod 10)])"

declare dec.simps [simp del]

subsection \<open>constructor\<close>

definition MCPClient_new ::
  "env \<Rightarrow> string \<Rightarrow> string \<Rightarrow> string \<Rightarrow> string option \<Rightarrow> js_error + MCPClient" where
  "MCPClient_new ev hostUrlOrDomain conversationId' shopId' customerMcpEndpoint' =
     (let hasProtocol =
            (has_prefix_ci ''http://'' hostUrlOrDomain \<or> has_prefix_ci ''https://'' hostUrlOrDomain)
      in case (if hasProtocol then url_hostname ev hostUrlOrDomain else Inr hostUrlOrDomain) of
           Inl e \<Rightarrow> Inl e
         | Inr hostname \<Rightarrow>
             let storefrontBase =
                   (case STOREFRONT_BASE_URL ev of
                      None \<Rightarrow> ''https://'' @ hostname
                    | Some b \<Rightarrow>
                        if b \<noteq> [] \<and> strip_trailing_slashes b \<noteq> []
                        then strip_trailing_slashes b
                        else ''https://'' @ hostname);
                 accountHost =
                   (if has_suffix_ci ''.myshopify.com'' hostname
                    then take (length hostname - 14) hostname @ ''.account.myshopify.com''
                    else hostname)
             in Inr \<lparr> shopDomain = hostname,
                      conversationId = conversationId',
                      shopId = shopId',
                      storefrontMcpEndpoint = storefrontBase @ ''/api/mcp'',
                      customerMcpEndpoint =
                        (case customerMcpEndpoint' of
                           None \<Rightarrow> ''https://'' @ accountHost @ ''/customer/api/mcp''
                         | Some c \<Rightarrow>
                             if c \<noteq> [] then c
                             else ''https://'' @ accountHost @ ''/customer/api/mcp''),
                      customerAccessToken = [],
                      tools = [],
                      customerTools = [],
                      storefrontTools = [] \<rparr>)"

subsection \<open>\<^verbatim>\<open>_makeJsonRpcRequest\<close>\<close>

text \<open>
  The separator of the failure message, as the source file has it: the UTF-8 bytes of its
  three characters. \<^verbatim>\<open>text.slice(0, 200)\<close> is the first 200 code units of the body.
\<close>

definition separator :: string where
  "separator = [CHR 0xC3, CHR 0xA2, CHR 0xE2, CHR 0x82, CHR 0xAC, CHR 0xE2, CHR 0x80, CHR 0x9D]"

definition request_failed :: "http_response \<Rightarrow> js_error" where
  "request_failed res =
     JsError (''Request failed: '' @ dec (http_status res) @ '' '' @ statusText res
                @ '' '' @ separator @ '' '' @ slice_0 200 (body res))
             (Some (http_status res))"

text \<open>The request that is posted; its \<^verbatim>\<open>id\<close> is \<^verbatim>\<open>Date.now()\<close>.\<close>

definition jsonRpcRequest ::
  "env \<Rightarrow> string \<Rightarrow> string \<Rightarrow> jsval \<Rightarrow> (string \<times> string) list \<Rightarrow> nat \<Rightarrow> request" where
  "jsonRpcRequest ev endpoint' method params' headers' t =
     \<lparr> endpoint = endpoint', http_method = ''POST'', headers = headers',
       jsonrpc = ''2.0'', rpc_method = method, rpc_id = date_now ev t,
       params = params' \<rparr>"

definition makeJsonRpcRequest ::
  "env \<Rightarrow> string \<Rightarrow> string \<Rightarrow> jsval \<Rightarrow> (string \<times> string) list \<Rightarrow> state
     \<Rightarrow> (js_error + jsval) \<times> state" where
  "makeJsonRpcRequest ev endpoint' method params' headers' s =
     (let req = jsonRpcRequest ev endpoint' method params' headers' (tick s);
          out = fetch ev (tick s) req;
          s1 = external (NetCall req out) s
      in case out of
           Inl e \<Rightarrow> (Inl e, s1)
         | Inr res \<Rightarrow>
             if \<not> ok res then (Inl (request_failed res), s1)
             else (case JSON_parse ev (body res) of
                     Inr v \<Rightarrow> (Inr v, s1)
                   | Inl msg \<Rightarrow>
                       (Inl (JsError msg None), emit (Console Err ''MCP response not JSON'') s1)))"

subsection \<open>\<^verbatim>\<open>_formatToolsData\<close>\<close>

text \<open>
  The \<^verbatim>\<open>TypeError\<close> that Node.js throws when property \<open>k\<close> of \<^verbatim>\<open>null\<close> or of
  \<^verbatim>\<open>undefined\<close> is read; the property is named between single quotes.
\<close>

definition cannot_read :: "jsval \<Rightarrow> string \<Rightarrow> js_error" where
  "cannot_read v k =
     JsError (''Cannot read properties of '' @ (if v = JNull then ''null'' else ''undefined'')
                @ '' (reading '' @ [CHR 0x27] @ k @ [CHR 0x27] @ '')'') None"

definition formatTool :: "jsval \<Rightarrow> js_error + tool" where
  "formatTool t =
     (if nullish t then Inl (cannot_read t ''name'')
      else Inr \<lparr> name = member t ''name'',
                 description = member t ''description'',
                 input_schema =
                   (if truthy (member t ''inputSchema'') then member t ''inputSchema''
                    else member t ''input_schema'') \<rparr>)"

text \<open>\<^verbatim>\<open>Array.prototype.map\<close> with a callback that may throw: the first throw ends it.\<close>

fun map_throw :: "('a \<Rightarrow> js_error + 'b) \<Rightarrow> 'a list \<Rightarrow> js_error + 'b list" where
  "map_throw f [] = Inr []"
| "map_throw f (x # xs) =
     (case f x of
        Inl e \<Rightarrow> Inl e
      | Inr y \<Rightarrow> (case map_throw f xs of Inl e \<Rightarrow> Inl e | Inr ys \<Rightarrow> Inr (y # ys)))"

text \<open>A value that is not an array has no \<^verbatim>\<open>map\<close> method: calling it throws.\<close>

definition formatToolsData :: "jsval \<Rightarrow> js_error + tool list" where
  "formatToolsData toolsData =
     (case toolsData of
        JArr ts \<Rightarrow> map_throw formatTool ts
      | _ \<Rightarrow> Inl (JsError ''toolsData.map is not a function'' None))"

text \<open>
  \<^verbatim>\<open>response?.result && response.result.tools ? response.result.tools : []\<close>
\<close>

definition toolsData_of :: "jsval \<Rightarrow> jsval" where
  "toolsData_of response =
     (let result = (if nullish response then JUndefined else member response ''result'')
      in if truthy result \<and> truthy (member result ''tools'') then member result ''tools''
         else JArr [])"

subsection \<open>connectToCustomerServer, connectToStorefrontServer\<close>

definition json_headers :: "(string \<times> string) list" where
  "json_headers = [(''Content-Type'', ''application/json'')]"

definition auth_headers :: "string \<Rightarrow> (string \<times> string) list" where
  "auth_headers token =
     json_headers @ (if token \<noteq> [] then [(''Authorization'', ''Bearer '' @ token)] else [])"

text \<open>The body of the \<^verbatim>\<open>try\<close> block of \<^verbatim>\<open>connectToCustomerServer\<close>.\<close>

definition connectToCustomerServer_try ::
  "env \<Rightarrow> state \<Rightarrow> (js_error + tool list) \<times> state" where
  "connectToCustomerServer_try ev s0 =
     (let s1 = emit (Console Log (''Connecting to MCP server at '' @ customerMcpEndpoint (this s0))) s0;
          looked =
            (if conversationId (this s1) \<noteq> [] then
               (let out = getCustomerToken ev (tick s1) (conversationId (this s1));
                    s2 = external (TokenLookup (conversationId (this s1)) out) s1
                in case out of
                     Inl e \<Rightarrow> (Inl e, s2)
                   | Inr dbToken \<Rightarrow>
                       (case dbToken of
                          Some t \<Rightarrow>
                            if accessToken t \<noteq> []
                            then (Inr (), s2\<lparr>this := (this s2)\<lparr>customerAccessToken := accessToken t\<rparr>\<rparr>)
                            else (Inr (), emit (Console Log ''No token in database for conversation:'') s2)
                        | None \<Rightarrow>
                            (Inr (), emit (Console Log ''No token in database for conversation:'') s2)))
             else (Inr (), s1))
      in case looked of
           (Inl e, s3) \<Rightarrow> (Inl e, s3)
         | (Inr u, s3) \<Rightarrow>
             (case makeJsonRpcRequest ev (customerMcpEndpoint (this s3)) ''tools/list'' (JObj [])
                     (auth_headers (customerAccessToken (this s3))) s3 of
                (Inl e, s4) \<Rightarrow> (Inl e, s4)
              | (Inr response, s4) \<Rightarrow>
                  (case formatToolsData (toolsData_of response) of
                     Inl e \<Rightarrow> (Inl e, s4)
                   | Inr customerTools' \<Rightarrow>
                       (Inr customerTools',
                        s4\<lparr>this := (this s4)\<lparr>customerTools := customerTools',
                                               tools := tools (this s4) @ customerTools'\<rparr>\<rparr>))))"

definition connectToCustomerServer ::
  "env \<Rightarrow> state \<Rightarrow> (js_error + tool list) \<times> state" where
  "connectToCustomerServer ev s =
     (case connectToCustomerServer_try ev s of
        (Inl e, s') \<Rightarrow> (Inl e, emit (Console Err ''Failed to connect to MCP server: '') s')
      | (Inr ts, s') \<Rightarrow> (Inr ts, s'))"

definition connectToStorefrontServer_try ::
  "env \<Rightarrow> state \<Rightarrow> (js_error + tool list) \<times> state" where
  "connectToStorefrontServer_try ev s0 =
     (let s1 = emit (Console Log (''Connecting to MCP server at '' @ storefrontMcpEndpoint (this s0))) s0
      in case makeJsonRpcRequest ev (storefrontMcpEndpoint (this s1)) ''tools/list'' (JObj [])
                json_headers s1 of
           (Inl e, s2) \<Rightarrow> (Inl e, s2)
         | (Inr response, s2) \<Rightarrow>
             (case formatToolsData (toolsData_of response) of
                Inl e \<Rightarrow> (Inl e, s2)
              | Inr storefrontTools' \<Rightarrow>
                  (Inr storefrontTools',
                   s2\<lparr>this := (this s2)\<lparr>storefrontTools := storefrontTools',
                                          tools := tools (this s2) @ storefrontTools'\<rparr>\<rparr>)))"

definition connectToStorefrontServer ::
  "env \<Rightarrow> state \<Rightarrow> (js_error + tool list) \<times> state" where
  "connectToStorefrontServer ev s =
     (case connectToStorefrontServer_try ev s of
        (Inl e, s') \<Rightarrow> (Inl e, emit (Console Err ''Failed to connect to MCP server: '') s')
      | (Inr ts, s') \<Rightarrow> (Inr ts, s'))"

subsection \<open>callTool, callStorefrontTool, callCustomerTool\<close>

text \<open>\<^verbatim>\<open>response.result || response\<close>; reading \<^verbatim>\<open>result\<close> of \<^verbatim>\<open>null\<close> throws.\<close>

definition result_or_response :: "jsval \<Rightarrow> js_error + jsval" where
  "result_or_response response =
     (if nullish response then Inl (cannot_read response ''result'')
      else if truthy (member response ''result'') then Inr (member response ''result'')
      else Inr response)"

definition call_params :: "string \<Rightarrow> jsval \<Rightarrow> jsval" where
  "call_params toolName toolArgs = JObj [(''name'', JStr toolName), (''arguments'', toolArgs)]"

definition error_result :: "string \<Rightarrow> string \<Rightarrow> jsval" where
  "error_result ty msg = JObj [(''error'', JObj [(''type'', JStr ty), (''data'', JStr msg)])]"

definition auth_required_result :: "string \<Rightarrow> jsval" where
  "auth_required_result url =
     error_result ''auth_required''
       (''You need to authorize the app to access your customer data. [Click here to authorize]('' @ url @ '')'')"

definition internal_error_result :: "string \<Rightarrow> js_error \<Rightarrow> jsval" where
  "internal_error_result toolName e =
     error_result ''internal_error'' (''Error calling tool '' @ toolName @ '': '' @ message e)"

definition callStorefrontTool ::
  "env \<Rightarrow> string \<Rightarrow> jsval \<Rightarrow> state \<Rightarrow> (js_error + jsval) \<times> state" where
  "callStorefrontTool ev toolName toolArgs s0 =
     (let s1 = emit (Console Log ''Calling storefront tool'') s0;
          tried =
            (case makeJsonRpcRequest ev (storefrontMcpEndpoint (this s1)) ''tools/call''
                    (call_params toolName toolArgs) json_headers s1 of
               (Inl e, s2) \<Rightarrow> (Inl e, s2)
             | (Inr response, s2) \<Rightarrow> (result_or_response response, s2))
      in case tried of
           (Inl e, s3) \<Rightarrow> (Inl e, emit (Console Err (''Error calling tool '' @ toolName @ '':'')) s3)
         | (Inr v, s3) \<Rightarrow> (Inr v, s3))"

text \<open>
  The first part of the outer \<^verbatim>\<open>try\<close> block of \<^verbatim>\<open>callCustomerTool\<close>: the access token
  to send, taken from the instance or looked up by conversation id.
\<close>

definition resolveAccessToken :: "env \<Rightarrow> state \<Rightarrow> (js_error + string) \<times> state" where
  "resolveAccessToken ev s1 =
     (if customerAccessToken (this s1) \<noteq> [] then (Inr (customerAccessToken (this s1)), s1)
      else
        (let out = getCustomerToken ev (tick s1) (conversationId (this s1));
             s2 = external (TokenLookup (conversationId (this s1)) out) s1
         in case out of
              Inl e \<Rightarrow> (Inl e, s2)
            | Inr dbToken \<Rightarrow>
                (case dbToken of
                   Some t \<Rightarrow>
                     if accessToken t \<noteq> []
                     then (Inr (accessToken t),
                           s2\<lparr>this := (this s2)\<lparr>customerAccessToken := accessToken t\<rparr>\<rparr>)
                     else (Inr (customerAccessToken (this s1)),
                           emit (Console Log ''No token in database for conversation:'') s2)
                 | None \<Rightarrow>
                     (Inr (customerAccessToken (this s1)),
                      emit (Console Log ''No token in database for conversation:'') s2))))"

text \<open>The inner \<^verbatim>\<open>try\<close>/\<^verbatim>\<open>catch\<close>: the request, and the recovery from a 401.\<close>

definition callCustomerTool_request ::
  "env \<Rightarrow> string \<Rightarrow> jsval \<Rightarrow> string \<Rightarrow> state \<Rightarrow> (js_error + jsval) \<times> state" where
  "callCustomerTool_request ev toolName toolArgs token s2 =
     (let tried =
            (case makeJsonRpcRequest ev (customerMcpEndpoint (this s2)) ''tools/call''
                    (call_params toolName toolArgs) (auth_headers token) s2 of
               (Inl e, s3) \<Rightarrow> (Inl e, s3)
             | (Inr response, s3) \<Rightarrow> (result_or_response response, s3))
      in case tried of
           (Inr v, s4) \<Rightarrow> (Inr v, s4)
         | (Inl error, s4) \<Rightarrow>
             if status error = Some 401 then
               (let s5 = emit (Console Log ''Unauthorized, generating authorization URL for customer'') s4;
                    out = generateAuthUrl ev (tick s5) (conversationId (this s5)) (shopId (this s5));
                    s6 = external (AuthUrlRequest (conversationId (this s5)) (shopId (this s5)) out) s5
                in case out of
                     Inl e \<Rightarrow> (Inl e, s6)
                   | Inr url \<Rightarrow> (Inr (auth_required_result url), s6))
             else (Inl error, s4))"

definition callCustomerTool_try ::
  "env \<Rightarrow> string \<Rightarrow> jsval \<Rightarrow> state \<Rightarrow> (js_error + jsval) \<times> state" where
  "callCustomerTool_try ev toolName toolArgs s0 =
     (let s1 = emit (Console Log ''Calling customer tool'') s0
      in case resolveAccessToken ev s1 of
           (Inl e, s2) \<Rightarrow> (Inl e, s2)
         | (Inr token, s2) \<Rightarrow> callCustomerTool_request ev toolName toolArgs token s2)"

definition callCustomerTool ::
  "env \<Rightarrow> string \<Rightarrow> jsval \<Rightarrow> state \<Rightarrow> (js_error + jsval) \<times> state" where
  "callCustomerTool ev toolName toolArgs s =
     (case callCustomerTool_try ev toolName toolArgs s of
        (Inr v, s') \<Rightarrow> (Inr v, s')
      | (Inl error, s') \<Rightarrow>
          (Inr (internal_error_result toolName error),
           emit (Console Err (''Error calling tool '' @ toolName @ '':'')) s'))"

text \<open>\<^verbatim>\<open>catalog.some((tool) => tool.name === toolName)\<close>, for a string \<open>toolName\<close>.\<close>

definition advertises :: "tool list \<Rightarrow> string \<Rightarrow> bool" where
  "advertises catalog toolName = list_ex (\<lambda>t. name t = JStr toolName) catalog"

definition not_found :: "string \<Rightarrow> js_error" where
  "not_found toolName = JsError (''Tool '' @ toolName @ '' not found'') None"

definition callTool ::
  "env \<Rightarrow> string \<Rightarrow> jsval \<Rightarrow> state \<Rightarrow> (js_error + jsval) \<times> state" where
  "callTool ev toolName toolArgs s =
     (if advertises (customerTools (this s)) toolName then callCustomerTool ev toolName toolArgs s
      else if advertises (storefrontTools (this s)) toolName then callStorefrontTool ev toolName toolArgs s
      else (Inl (not_found toolName), s))"

text \<open>The effects added to the trace between two states.\<close>

definition new_effects :: "state \<Rightarrow> state \<Rightarrow> effect list" where
  "new_effects s s' = drop (length (trace s)) (trace s')"

subsection \<open>Sequences of connect calls\<close>

text \<open>
  A caller may connect to the two servers any number of times, in any order, on one
  instance, going on after a call that throws. \<open>connect_sequence\<close> runs such a sequence
  and collects what each call returned or threw.
\<close>

datatype backend = CustomerBackend | StorefrontBackend

definition connect :: "env \<Rightarrow> backend \<Rightarrow> state \<Rightarrow> (js_error + tool list) \<times> state" where
  "connect ev b s =
     (case b of
        CustomerBackend \<Rightarrow> connectToCustomerServer ev s
      | StorefrontBackend \<Rightarrow> connectToStorefrontServer ev s)"

fun connect_sequence ::
  "env \<Rightarrow> backend list \<Rightarrow> state \<Rightarrow> (backend \<times> (js_error + tool list)) list \<times> state" where
  "connect_sequence ev [] s = ([], s)"
| "connect_sequence ev (b # bs) s =
     (case connect ev b s of
        (r, s1) \<Rightarrow> (case connect_sequence ev bs s1 of (rs, s2) \<Rightarrow> ((b, r) # rs, s2)))"

text \<open>The catalogs returned by the calls of a sequence, and those of one server.\<close>

fun returned :: "(backend \<times> (js_error + tool list)) list \<Rightarrow> tool list list" where
  "returned [] = []"
| "returned ((b, Inr ts) # rs) = ts # returned rs"
| "returned ((b, Inl e) # rs) = returned rs"

definition returned_by ::
  "backend \<Rightarrow> (backend \<times> (js_error + tool list)) list \<Rightarrow> tool list list" where
  "returned_by b rs = returned (filter (\<lambda>(b', r). b' = b) rs)"

section \<open>The chat route\<close>

text \<open>
  The events sent to the client over the push channel, in the order sent: those that
  \<^verbatim>\<open>handleChatSession\<close> and its callbacks send, and \<open>Ev_other\<close> for an object sent by
  somebody else.
\<close>

datatype stream_event =
    Ev_id string
  | Ev_chunk string
  | is_Ev_tool_use: Ev_tool_use string
  | Ev_new_message
  | Ev_message_complete
  | Ev_content_block_complete jsval
  | Ev_end_turn
  | Ev_product_results "jsval list"
  | Ev_other jsval

text \<open>The \<^verbatim>\<open>tool_use\<close> content block given to \<^verbatim>\<open>onToolUse\<close>.\<close>

record tool_use =
  tu_name :: string
  tu_input :: jsval
  tu_id :: string

datatype callback =
    OnText string
  | OnMessage turn
  | is_OnToolUse: OnToolUse tool_use
  | OnContentBlock jsval

text \<open>
  The collaborators of \<^verbatim>\<open>routes/chat.jsx\<close> that are not among the sources are
  parameters, answered like those of the client by the clock and their arguments.
  \<open>streamConversation\<close> (\<^verbatim>\<open>services/claude.server\<close>) answers the callbacks it invokes,
  in order, and what it then returns or throws. \<open>handleToolError\<close> and
  \<open>handleToolSuccess\<close> (\<^verbatim>\<open>services/tool.server\<close>) are handed the history, the product
  list and \<^verbatim>\<open>stream.sendMessage\<close>: they answer what they throw, if anything, the
  history they leave, and the objects they send or the products they leave.
\<close>

record services =
  streamConversation ::
    "nat \<Rightarrow> turn list \<Rightarrow> string \<Rightarrow> tool list \<Rightarrow> callback list \<times> (js_error + final_message)"
  saveMessage :: "nat \<Rightarrow> string \<Rightarrow> string \<Rightarrow> string \<Rightarrow> js_error + unit"
  getConversationHistory :: "nat \<Rightarrow> string \<Rightarrow> js_error + db_message list"
  handleToolError ::
    "nat \<Rightarrow> jsval \<Rightarrow> string \<Rightarrow> string \<Rightarrow> turn list \<Rightarrow> string
       \<Rightarrow> js_error option \<times> turn list \<times> jsval list"
  handleToolSuccess ::
    "nat \<Rightarrow> jsval \<Rightarrow> string \<Rightarrow> string \<Rightarrow> turn list \<Rightarrow> jsval list \<Rightarrow> string
       \<Rightarrow> js_error option \<times> turn list \<times> jsval list"
  JSON_stringify :: "jsval \<Rightarrow> string"

text \<open>
  The variables of \<^verbatim>\<open>handleChatSession\<close>: the client (with clock and trace), the
  history, the products and what was sent on the stream.
\<close>

record session =
  sys :: state
  conversationHistory :: "turn list"
  productsToDisplay :: "jsval list"
  sent :: "stream_event list"

definition sendMessage :: "stream_event \<Rightarrow> session \<Rightarrow> session" where
  "sendMessage e \<sigma> = \<sigma>\<lparr>sent := sent \<sigma> @ [e]\<rparr>"

subsection \<open>Connecting to the MCP servers (lines 172-189)\<close>

definition customer_mcp_enabled :: "env \<Rightarrow> string option \<Rightarrow> bool" where
  "customer_mcp_enabled ev customerMcpEndpoint' =
     (ENABLE_CUSTOMER_MCP ev = Some ''true'' \<and>
      (case customerMcpEndpoint' of None \<Rightarrow> False | Some u \<Rightarrow> u \<noteq> []))"

definition connectMcpServers_try :: "env \<Rightarrow> string option \<Rightarrow> state \<Rightarrow> (js_error + unit) \<times> state" where
  "connectMcpServers_try ev customerMcpEndpoint' s0 =
     (case connectToStorefrontServer ev s0 of
        (Inl e, s1) \<Rightarrow> (Inl e, s1)
      | (Inr storefrontMcpTools, s1) \<Rightarrow>
          (case (if customer_mcp_enabled ev customerMcpEndpoint'
                 then connectToCustomerServer ev s1 else (Inr [], s1)) of
             (Inl e, s2) \<Rightarrow> (Inl e, s2)
           | (Inr customerMcpTools, s2) \<Rightarrow>
               (let s3 = emit (Console Log (''Connected to MCP with ''
                                 @ dec (length storefrontMcpTools) @ '' tools'')) s2
                in (Inr (),
                    if customerMcpTools \<noteq> []
                    then emit (Console Log (''Connected to customer MCP with ''
                                 @ dec (length customerMcpTools) @ '' tools'')) s3
                    else s3))))"

definition connectMcpServers :: "env \<Rightarrow> string option \<Rightarrow> session \<Rightarrow> session" where
  "connectMcpServers ev customerMcpEndpoint' \<sigma> =
     (case connectMcpServers_try ev customerMcpEndpoint' (sys \<sigma>) of
        (Inl error, s') \<Rightarrow>
          \<sigma>\<lparr>sys := emit (Console Warn (''Failed to connect to MCP servers, continuing without tools: ''
                                       @ message error)) s'\<rparr>
      | (Inr u, s') \<Rightarrow> \<sigma>\<lparr>sys := s'\<rparr>)"

subsection \<open>The callbacks given to the LLM provider\<close>

definition onText :: "string \<Rightarrow> session \<Rightarrow> (js_error + unit) \<times> session" where
  "onText textDelta \<sigma> = (Inr (), sendMessage (Ev_chunk textDelta) \<sigma>)"

text \<open>
  The message is saved without being awaited; a failure of the save is logged only.
\<close>

definition onMessage :: "services \<Rightarrow> string \<Rightarrow> turn \<Rightarrow> session \<Rightarrow> (js_error + unit) \<times> session" where
  "onMessage sv cid m \<sigma> =
     (let \<sigma>1 = \<sigma>\<lparr>conversationHistory :=
                    conversationHistory \<sigma> @ [\<lparr>role = role m, content = content m\<rparr>]\<rparr>;
          json = JSON_stringify sv (content m);
          out = saveMessage sv (tick (sys \<sigma>1)) cid (role m) json;
          s2 = external (SaveMessage cid (role m) json out) (sys \<sigma>1);
          s3 = (case out of
                  Inl e \<Rightarrow> emit (Console Err ''Error saving message to database:'') s2
                | Inr u \<Rightarrow> s2)
      in (Inr (), sendMessage Ev_message_complete (\<sigma>1\<lparr>sys := s3\<rparr>)))"

text \<open>
  Modelled from the spec: \<^verbatim>\<open>services/tool.server\<close> is not among the sources. The events
  of the push channel that the session sends itself (\<^verbatim>\<open>tool_use\<close>, \<^verbatim>\<open>new_message\<close>,
  \<^verbatim>\<open>end_turn\<close> and the others) are sent by the loop and its callbacks only, so what the
  tool service sends through \<^verbatim>\<open>stream.sendMessage\<close> is an event of its own
  (\<open>Ev_other\<close>).
\<close>

definition onToolUse ::
  "env \<Rightarrow> services \<Rightarrow> string \<Rightarrow> tool_use \<Rightarrow> session \<Rightarrow> (js_error + unit) \<times> session" where
  "onToolUse ev sv cid c \<sigma>0 =
     (let toolUseMessage = ''Calling tool: '' @ tu_name c @ '' with arguments: ''
                             @ JSON_stringify sv (tu_input c);
          \<sigma>1 = sendMessage (Ev_tool_use toolUseMessage) \<sigma>0
      in case callTool ev (tu_name c) (tu_input c) (sys \<sigma>1) of
           (Inl e, s2) \<Rightarrow> (Inl e, \<sigma>1\<lparr>sys := s2\<rparr>)
         | (Inr toolUseResponse, s2) \<Rightarrow>
             if nullish toolUseResponse
             then (Inl (cannot_read toolUseResponse ''error''), \<sigma>1\<lparr>sys := s2\<rparr>)
             else if truthy (member toolUseResponse ''error'')
             then (case handleToolError sv (tick s2) toolUseResponse (tu_name c) (tu_id c)
                          (conversationHistory \<sigma>1) cid of
                     (thrown, history', objects) \<Rightarrow>
                       (let \<sigma>3 = \<sigma>1\<lparr>sys := external (ToolService ''handleToolError'' (tu_name c)) s2,
                                     conversationHistory := history',
                                     sent := sent \<sigma>1 @ map Ev_other objects\<rparr>
                        in case thrown of
                             Some e \<Rightarrow> (Inl e, \<sigma>3)
                           | None \<Rightarrow> (Inr (), sendMessage Ev_new_message \<sigma>3)))
             else (case handleToolSuccess sv (tick s2) toolUseResponse (tu_name c) (tu_id c)
                          (conversationHistory \<sigma>1) (productsToDisplay \<sigma>1) cid of
                     (thrown, history', products') \<Rightarrow>
                       (let \<sigma>3 = \<sigma>1\<lparr>sys := external (ToolService ''handleToolSuccess'' (tu_name c)) s2,
                                     conversationHistory := history',
                                     productsToDisplay := products'\<rparr>
                        in case thrown of
                             Some e \<Rightarrow> (Inl e, \<sigma>3)
                           | None \<Rightarrow> (Inr (), sendMessage Ev_new_message \<sigma>3))))"

definition onContentBlock :: "jsval \<Rightarrow> session \<Rightarrow> (js_error + unit) \<times> session" where
  "onContentBlock contentBlock \<sigma> =
     (if nullish contentBlock then (Inl (cannot_read contentBlock ''type''), \<sigma>)
      else if member contentBlock ''type'' = JStr ''text''
      then (Inr (), sendMessage (Ev_content_block_complete contentBlock) \<sigma>)
      else (Inr (), \<sigma>))"

definition run_callback ::
  "env \<Rightarrow> services \<Rightarrow> string \<Rightarrow> callback \<Rightarrow> session \<Rightarrow> (js_error + unit) \<times> session" where
  "run_callback ev sv cid c \<sigma> =
     (case c of
        OnText textDelta \<Rightarrow> onText textDelta \<sigma>
      | OnMessage m \<Rightarrow> onMessage sv cid m \<sigma>
      | OnToolUse tu \<Rightarrow> onToolUse ev sv cid tu \<sigma>
      | OnContentBlock b \<Rightarrow> onContentBlock b \<sigma>)"

text \<open>
  Modelled from the spec: \<^verbatim>\<open>services/claude.server\<close>, which invokes the callbacks, is
  not among the sources. The provider invokes them one after the other, and a failure
  inside the loop is not swallowed: a callback that throws ends the call with its error.
\<close>

fun run_callbacks ::
  "env \<Rightarrow> services \<Rightarrow> string \<Rightarrow> callback list \<Rightarrow> session \<Rightarrow> (js_error + unit) \<times> session" where
  "run_callbacks ev sv cid [] \<sigma> = (Inr (), \<sigma>)"
| "run_callbacks ev sv cid (c # cs) \<sigma> =
     (case run_callback ev sv cid c \<sigma> of
        (Inl e, \<sigma>') \<Rightarrow> (Inl e, \<sigma>')
      | (Inr u, \<sigma>') \<Rightarrow> run_callbacks ev sv cid cs \<sigma>')"

subsection \<open>The conversation loop (lines 216-305)\<close>

text \<open>One iteration: the call of \<^verbatim>\<open>claudeService.streamConversation\<close>.\<close>

definition streamConversation_call ::
  "env \<Rightarrow> services \<Rightarrow> string \<Rightarrow> string \<Rightarrow> session \<Rightarrow> (js_error + final_message) \<times> session" where
  "streamConversation_call ev sv cid promptType \<sigma> =
     (case streamConversation sv (tick (sys \<sigma>)) (conversationHistory \<sigma>) promptType
             (tools (this (sys \<sigma>))) of
        (script, outcome) \<Rightarrow>
          (let \<sigma>1 = \<sigma>\<lparr>sys := external (LlmCall (conversationHistory \<sigma>) promptType
                                             (tools (this (sys \<sigma>))) outcome) (sys \<sigma>)\<rparr>
           in case run_callbacks ev sv cid script \<sigma>1 of
                (Inl e, \<sigma>2) \<Rightarrow> (Inl e, \<sigma>2)
              | (Inr u, \<sigma>2) \<Rightarrow>
                  (case outcome of Inl e \<Rightarrow> (Inl e, \<sigma>2) | Inr finalMessage \<Rightarrow> (Inr finalMessage, \<sigma>2))))"

text \<open>
  \<^verbatim>\<open>while (finalMessage.stop_reason !== "end_turn")\<close>. The source puts no bound on the
  number of iterations; the first argument is the number of iterations allowed, and
  \<open>None\<close> says that they did not suffice.
\<close>

fun conversationLoop ::
  "nat \<Rightarrow> env \<Rightarrow> services \<Rightarrow> string \<Rightarrow> string \<Rightarrow> final_message \<Rightarrow> session
     \<Rightarrow> ((js_error + unit) \<times> session) option" where
  "conversationLoop 0 ev sv cid promptType finalMessage \<sigma> =
     (if stop_reason finalMessage \<noteq> JStr ''end_turn'' then None else Some (Inr (), \<sigma>))"
| "conversationLoop (Suc k) ev sv cid promptType finalMessage \<sigma> =
     (if stop_reason finalMessage \<noteq> JStr ''end_turn''
      then (case streamConversation_call ev sv cid promptType \<sigma> of
              (Inl e, \<sigma>') \<Rightarrow> Some (Inl e, \<sigma>')
            | (Inr finalMessage', \<sigma>') \<Rightarrow> conversationLoop k ev sv cid promptType finalMessage' \<sigma>')
      else Some (Inr (), \<sigma>))"

subsection \<open>handleChatSession\<close>

text \<open>
  What \<^verbatim>\<open>handleChatSession\<close> is given, with \<^verbatim>\<open>resolveShopDomain(request)\<close> (which may
  throw), the shop id header and \<^verbatim>\<open>getCustomerMcpEndpoint\<close> (\<open>None\<close> for \<^verbatim>\<open>null\<close>)
  already evaluated.
\<close>

record chat_args =
  arg_shopDomain :: "js_error + string"
  arg_shopId :: string
  arg_customerMcpEndpoint :: "string option"
  arg_userMessage :: string
  arg_conversationId :: string
  arg_promptType :: string

definition rehydrate :: "env \<Rightarrow> db_message \<Rightarrow> turn" where
  "rehydrate ev dbMessage =
     \<lparr> role = db_role dbMessage,
       content = (case JSON_parse ev (db_content dbMessage) of
                    Inr v \<Rightarrow> v
                  | Inl msg \<Rightarrow> JStr (db_content dbMessage)) \<rparr>"

text \<open>The end of the \<^verbatim>\<open>try\<close> block, after the loop (lines 307-316).\<close>

definition end_of_turn :: "session \<Rightarrow> session" where
  "end_of_turn \<sigma> =
     (let \<sigma>1 = sendMessage Ev_end_turn \<sigma>
      in if productsToDisplay \<sigma>1 \<noteq> []
         then sendMessage (Ev_product_results (productsToDisplay \<sigma>1)) \<sigma>1 else \<sigma>1)"

text \<open>
  The beginning of the \<^verbatim>\<open>try\<close> block (lines 168-213): the conversation id is sent, the
  servers are connected, the user message is saved and the history is read back.
\<close>

definition prepareConversation ::
  "env \<Rightarrow> services \<Rightarrow> chat_args \<Rightarrow> session \<Rightarrow> (js_error + unit) \<times> session" where
  "prepareConversation ev sv args \<sigma>0 =
     (let cid = arg_conversationId args;
          \<sigma>1 = sendMessage (Ev_id cid) \<sigma>0;
          \<sigma>2 = connectMcpServers ev (arg_customerMcpEndpoint args) \<sigma>1;
          saved = saveMessage sv (tick (sys \<sigma>2)) cid ''user'' (arg_userMessage args);
          \<sigma>3 = \<sigma>2\<lparr>sys := external (SaveMessage cid ''user'' (arg_userMessage args) saved) (sys \<sigma>2),
                    conversationHistory := [], productsToDisplay := []\<rparr>
      in case saved of
           Inl e \<Rightarrow> (Inl e, \<sigma>3)
         | Inr u \<Rightarrow>
             (let fetched = getConversationHistory sv (tick (sys \<sigma>3)) cid;
                  \<sigma>4 = \<sigma>3\<lparr>sys := external (HistoryFetch cid fetched) (sys \<sigma>3)\<rparr>
              in case fetched of
                   Inl e \<Rightarrow> (Inl e, \<sigma>4)
                 | Inr dbMessages \<Rightarrow>
                     (Inr (), \<sigma>4\<lparr>conversationHistory := map (rehydrate ev) dbMessages\<rparr>)))"

text \<open>
  The \<^verbatim>\<open>try\<close> block of \<^verbatim>\<open>handleChatSession\<close>; its \<^verbatim>\<open>catch\<close> throws again. The loop
  starts from \<^verbatim>\<open>{ role: "user", content: userMessage }\<close>, which has no stop reason.
\<close>

definition chatSession_try ::
  "nat \<Rightarrow> env \<Rightarrow> services \<Rightarrow> chat_args \<Rightarrow> session \<Rightarrow> ((js_error + unit) \<times> session) option" where
  "chatSession_try fuel ev sv args \<sigma>0 =
     (case prepareConversation ev sv args \<sigma>0 of
        (Inl e, \<sigma>4) \<Rightarrow> Some (Inl e, \<sigma>4)
      | (Inr u, \<sigma>4) \<Rightarrow>
          (case conversationLoop fuel ev sv (arg_conversationId args) (arg_promptType args)
                  \<lparr> role = ''user'', content = JStr (arg_userMessage args),
                    stop_reason = JUndefined \<rparr> \<sigma>4 of
             None \<Rightarrow> None
           | Some (Inl e, \<sigma>5) \<Rightarrow> Some (Inl e, \<sigma>5)
           | Some (Inr u', \<sigma>5) \<Rightarrow> Some (Inr (), end_of_turn \<sigma>5)))"

definition handleChatSession ::
  "nat \<Rightarrow> env \<Rightarrow> services \<Rightarrow> chat_args \<Rightarrow> nat
     \<Rightarrow> ((js_error + unit) \<times> session option) option" where
  "handleChatSession fuel ev sv args t0 =
     (case arg_shopDomain args of
        Inl e \<Rightarrow> Some (Inl e, None)
      | Inr shopDomain' \<Rightarrow>
          (case MCPClient_new ev shopDomain' (arg_conversationId args) (arg_shopId args)
                  (arg_customerMcpEndpoint args) of
             Inl e \<Rightarrow> Some (Inl e, None)
           | Inr mcpClient \<Rightarrow>
               (case chatSession_try fuel ev sv args
                       \<lparr> sys = \<lparr> this = mcpClient, tick = t0, trace = [] \<rparr>,
                         conversationHistory = [], productsToDisplay = [], sent = [] \<rparr> of
                  None \<Rightarrow> None
                | Some (r, \<sigma>) \<Rightarrow> Some (r, Some \<sigma>))))"

section \<open>Notions used in the statements\<close>

text \<open>
  What one \<^verbatim>\<open>tools/call\<close> exchange gives inside the \<^verbatim>\<open>try\<close> block of a tool call,
  from what \<^verbatim>\<open>fetch\<close> answered: the value of \<^verbatim>\<open>response.result || response\<close>, or
  the error thrown on the way.
\<close>

definition exchange :: "env \<Rightarrow> js_error + http_response \<Rightarrow> js_error + jsval" where
  "exchange ev out =
     (case out of
        Inl e \<Rightarrow> Inl e
      | Inr res \<Rightarrow>
          if \<not> ok res then Inl (request_failed res)
          else (case JSON_parse ev (body res) of
                  Inl msg \<Rightarrow> Inl (JsError msg None)
                | Inr v \<Rightarrow> result_or_response v))"

text \<open>
  What one \<^verbatim>\<open>tools/list\<close> exchange gives inside the \<^verbatim>\<open>try\<close> block of a connect call:
  the normalised catalog, or the error thrown on the way.
\<close>

definition listing :: "env \<Rightarrow> js_error + http_response \<Rightarrow> js_error + tool list" where
  "listing ev out =
     (case out of
        Inl e \<Rightarrow> Inl e
      | Inr res \<Rightarrow>
          if \<not> ok res then Inl (request_failed res)
          else (case JSON_parse ev (body res) of
                  Inl msg \<Rightarrow> Inl (JsError msg None)
                | Inr v \<Rightarrow> formatToolsData (toolsData_of v)))"

text \<open>What \<^verbatim>\<open>_makeJsonRpcRequest\<close> logs after the exchange.\<close>

definition parse_console :: "env \<Rightarrow> js_error + http_response \<Rightarrow> effect list" where
  "parse_console ev out =
     (case out of
        Inl e \<Rightarrow> []
      | Inr res \<Rightarrow>
          if ok res \<and> isl (JSON_parse ev (body res))
          then [Console Err ''MCP response not JSON''] else [])"

text \<open>What the LLM provider answered to the calls recorded in a trace, in order.\<close>

fun llm_outcomes :: "effect list \<Rightarrow> (js_error + final_message) list" where
  "llm_outcomes [] = []"
| "llm_outcomes (LlmCall messages promptType catalog out # es) = out # llm_outcomes es"
| "llm_outcomes (e # es) = llm_outcomes es"


text \<open>
  Of a session that returned or threw: the outcome, the events sent, the answers of the
  LLM provider and the merged catalog at the end.
\<close>

definition session_summary ::
  "((js_error + unit) \<times> session) option
     \<Rightarrow> ((js_error + unit) \<times> stream_event list \<times> (js_error + final_message) list \<times> tool list) option" where
  "session_summary out =
     map_option (\<lambda>(r, \<sigma>). (r, sent \<sigma>, llm_outcomes (trace (sys \<sigma>)), tools (this (sys \<sigma>)))) out"



text \<open>The exchange threw an error whose status is 401.\<close>

definition recovers :: "js_error + jsval \<Rightarrow> bool" where
  "recovers x = (case x of Inl e \<Rightarrow> status e = Some 401 | Inr v \<Rightarrow> False)"

text \<open>
  The error, if any, that reaches the outer \<^verbatim>\<open>catch\<close> of \<^verbatim>\<open>callCustomerTool\<close> once the
  request was made, and the value the call returns.
\<close>

definition request_failure :: "js_error + jsval \<Rightarrow> js_error + string \<Rightarrow> js_error option" where
  "request_failure x gout =
     (case x of
        Inr v \<Rightarrow> None
      | Inl e \<Rightarrow>
          if status e = Some 401 then (case gout of Inl e' \<Rightarrow> Some e' | Inr url \<Rightarrow> None)
          else Some e)"

definition request_value :: "string \<Rightarrow> js_error + jsval \<Rightarrow> js_error + string \<Rightarrow> jsval" where
  "request_value n x gout =
     (case x of
        Inr v \<Rightarrow> v
      | Inl e \<Rightarrow>
          if status e = Some 401
          then (case gout of
                  Inl e' \<Rightarrow> internal_error_result n e'
                | Inr url \<Rightarrow> auth_required_result url)
          else internal_error_result n e)"

section \<open>A demonstration shop\<close>

text \<open>
  A client connected to a storefront server advertising \<^verbatim>\<open>search_products\<close> and
  \<^verbatim>\<open>track_order\<close> and to a customer server advertising \<^verbatim>\<open>get_orders\<close> and
  \<^verbatim>\<open>track_order\<close>, and worlds in which the servers answer in various ways.
\<close>

definition search_tool :: tool where
  "search_tool = \<lparr> name = JStr ''search_products'', description = JStr ''Search the catalog'',
                    input_schema = JObj [(''type'', JStr ''object'')] \<rparr>"

definition orders_tool :: tool where
  "orders_tool = \<lparr> name = JStr ''get_orders'', description = JStr ''Orders of the customer'',
                    input_schema = JObj [(''type'', JStr ''object'')] \<rparr>"

definition track_tool :: tool where
  "track_tool = \<lparr> name = JStr ''track_order'', description = JStr ''Where an order is'',
                   input_schema = JObj [(''type'', JStr ''object'')] \<rparr>"

definition storefront_url :: string where
  "storefront_url = ''https://demo.myshopify.com/api/mcp''"

definition customer_url :: string where
  "customer_url = ''https://demo.account.myshopify.com/customer/api/mcp''"

definition fresh_client :: MCPClient where
  "fresh_client =
     \<lparr> shopDomain = ''demo.myshopify.com'', conversationId = ''c1'', shopId = ''shop1'',
       storefrontMcpEndpoint = storefront_url, customerMcpEndpoint = customer_url,
       customerAccessToken = [], tools = [], customerTools = [], storefrontTools = [] \<rparr>"

definition shop_client :: MCPClient where
  "shop_client =
     fresh_client\<lparr> tools := [search_tool, track_tool, orders_tool, track_tool],
                   customerTools := [orders_tool, track_tool],
                   storefrontTools := [search_tool, track_tool] \<rparr>"

definition fresh_state :: state where
  "fresh_state = \<lparr> this = fresh_client, tick = 0, trace = [] \<rparr>"

definition shop_state :: state where
  "shop_state = \<lparr> this = shop_client, tick = 0, trace = [] \<rparr>"

definition signed_in_state :: state where
  "signed_in_state = \<lparr> this = shop_client\<lparr>customerAccessToken := ''tok-1''\<rparr>, tick = 0, trace = [] \<rparr>"

definition answer :: "nat \<Rightarrow> string \<Rightarrow> string \<Rightarrow> http_response" where
  "answer st txt b = \<lparr> http_status = st, statusText = txt, body = b, location = None \<rparr>"

definition unauthorized :: http_response where
  "unauthorized = answer 401 ''Unauthorized'' ''sign in''"

definition long_failure :: http_response where
  "long_failure = answer 500 ''Internal Server Error'' (replicate 200 (CHR ''x'') @ ''#'')"

definition login_page :: http_response where
  "login_page = answer 200 ''OK'' ''<html>''"

text \<open>The only bodies the demonstration parser accepts.\<close>

definition demo_parse :: "string \<Rightarrow> string + jsval" where
  "demo_parse txt =
     (if txt = ''storefront catalog''
      then Inr (JObj [(''result'', JObj [(''tools'',
             JArr [JObj [(''name'', JStr ''search_products''),
                         (''description'', JStr ''Search the catalog''),
                         (''inputSchema'', JObj [(''type'', JStr ''object'')])],
                   JObj [(''name'', JStr ''track_order''),
                         (''description'', JStr ''Where an order is''),
                         (''input_schema'', JObj [(''type'', JStr ''object'')])]])])])
      else if txt = ''customer catalog''
      then Inr (JObj [(''result'', JObj [(''tools'',
             JArr [JObj [(''name'', JStr ''get_orders''),
                         (''description'', JStr ''Orders of the customer''),
                         (''inputSchema'', JObj [(''type'', JStr ''object'')])],
                   JObj [(''name'', JStr ''track_order''),
                         (''description'', JStr ''Where an order is''),
                         (''inputSchema'', JObj [(''type'', JStr ''object'')])]])])])
      else if txt = ''products''
      then Inr (JObj [(''result'', JObj [(''content'', JArr [JStr ''red shoes''])])])
      else if txt = ''null'' then Inr JNull
      else Inl ''Unexpected token'')"

definition demo_env ::
  "(nat \<Rightarrow> request \<Rightarrow> js_error + http_response) \<Rightarrow> (js_error + db_token option) \<Rightarrow> env" where
  "demo_env f tok =
     \<lparr> fetch = f,
       getCustomerToken = (\<lambda>t c. tok),
       generateAuthUrl = (\<lambda>t c sh. Inr (''https://auth.example/'' @ c @ ''/'' @ sh)),
       JSON_parse = demo_parse,
       date_now = (\<lambda>t. 1700000000000 + int t),
       url_hostname = (\<lambda>u. Inr u),
       STOREFRONT_BASE_URL = None,
       ENABLE_CUSTOMER_MCP = Some ''true'' \<rparr>"

text \<open>Every request is answered 401; no token is stored.\<close>

definition env_401 :: env where
  "env_401 = demo_env (\<lambda>t req. Inr unauthorized) (Inr None)"

text \<open>Every request is answered 401 and the authorization-URL generator fails.\<close>

definition env_401_no_url :: env where
  "env_401_no_url =
     env_401\<lparr>generateAuthUrl := (\<lambda>t c sh. Inl (JsError ''authorization service unavailable'' None))\<rparr>"

text \<open>Every request is answered 401; a token is stored.\<close>

definition env_stale_token :: env where
  "env_stale_token = demo_env (\<lambda>t req. Inr unauthorized) (Inr (Some \<lparr>accessToken = ''tok-1''\<rparr>))"

text \<open>The network is down.\<close>

definition env_down :: env where
  "env_down = demo_env (\<lambda>t req. Inl (JsError ''fetch failed'' None)) (Inr None)"

text \<open>Both servers answer: catalogs to \<^verbatim>\<open>tools/list\<close>, products to \<^verbatim>\<open>tools/call\<close>.\<close>

definition healthy_fetch :: "nat \<Rightarrow> request \<Rightarrow> js_error + http_response" where
  "healthy_fetch t req =
     (if rpc_method req = ''tools/list''
      then (if endpoint req = customer_url then Inr (answer 200 ''OK'' ''customer catalog'')
            else Inr (answer 200 ''OK'' ''storefront catalog''))
      else Inr (answer 200 ''OK'' ''products''))"

definition env_healthy :: env where
  "env_healthy = demo_env healthy_fetch (Inr None)"

text \<open>The storefront server is unreachable; the customer server answers.\<close>

definition env_storefront_down :: env where
  "env_storefront_down =
     demo_env (\<lambda>t req. if endpoint req = customer_url then healthy_fetch t req
                        else Inl (JsError ''fetch failed'' None)) (Inr None)"

text \<open>A session about to start on the new client, and what the route is given.\<close>

definition fresh_session :: session where
  "fresh_session = \<lparr> sys = fresh_state, conversationHistory = [], productsToDisplay = [], sent = [] \<rparr>"

definition demo_args :: chat_args where
  "demo_args =
     \<lparr> arg_shopDomain = Inr ''demo.myshopify.com'', arg_shopId = ''shop1'',
       arg_customerMcpEndpoint = Some customer_url, arg_userMessage = ''hello'',
       arg_conversationId = ''c1'', arg_promptType = ''standardAssistant'' \<rparr>"

definition greeting :: final_message where
  "greeting = \<lparr> role = ''assistant'', content = JArr [JStr ''Hi!''],
                 stop_reason = JStr ''end_turn'' \<rparr>"

definition search_request :: tool_use where
  "search_request = \<lparr> tu_name = ''search_products'', tu_input = JObj [], tu_id = ''toolu_1'' \<rparr>"

text \<open>
  Services whose database works and whose tool service appends the tool result to the
  history; the provider is a parameter.
\<close>

definition demo_services ::
  "(nat \<Rightarrow> turn list \<Rightarrow> string \<Rightarrow> tool list \<Rightarrow> callback list \<times> (js_error + final_message))
     \<Rightarrow> services" where
  "demo_services provider =
     \<lparr> streamConversation = provider,
       saveMessage = (\<lambda>t c r m. Inr ()),
       getConversationHistory = (\<lambda>t c. Inr [\<lparr>db_role = ''user'', db_content = ''hello''\<rparr>]),
       handleToolError = (\<lambda>t resp n i h c. (None, h @ [\<lparr>role = ''user'', content = resp\<rparr>], [])),
       handleToolSuccess = (\<lambda>t resp n i h p c. (None, h @ [\<lparr>role = ''user'', content = resp\<rparr>], p)),
       JSON_stringify = (\<lambda>v. ''{}'') \<rparr>"

text \<open>A provider that answers at once and ends the turn.\<close>

definition sv_greets :: services where
  "sv_greets =
     demo_services (\<lambda>t h p ts.
       ([OnText ''Hi!'', OnContentBlock (JObj [(''type'', JStr ''text''), (''text'', JStr ''Hi!'')]),
         OnMessage \<lparr>role = ''assistant'', content = JArr [JStr ''Hi!'']\<rparr>],
        Inr greeting))"

text \<open>
  A provider whose first message holds a \<^verbatim>\<open>tool_use\<close> block, for which it invokes
  \<^verbatim>\<open>onToolUse\<close>, and has the stop reason \<^verbatim>\<open>end_turn\<close>.
\<close>

definition search_and_stop :: final_message where
  "search_and_stop =
     \<lparr> role = ''assistant'',
       content = JArr [JObj [(''type'', JStr ''tool_use''), (''id'', JStr ''toolu_1''),
                             (''name'', JStr ''search_products''), (''input'', JObj [])]],
       stop_reason = JStr ''end_turn'' \<rparr>"


text \<open>The customer server is unreachable; the storefront server answers.\<close>

definition env_customer_down :: env where
  "env_customer_down =
     demo_env (\<lambda>t req. if endpoint req = customer_url then Inl (JsError ''fetch failed'' None)
                        else healthy_fetch t req) (Inr None)"

text \<open>
  The server fails with a body of 201 characters, or with one of 201 characters of two
  bytes each (\<^verbatim>\<open>U+00E9\<close>), or with one of 199 characters followed by a character of
  four bytes (\<^verbatim>\<open>U+1F600\<close>, the pair \<^verbatim>\<open>D83D DE00\<close>), or answers a login page or
  \<^verbatim>\<open>null\<close>.
\<close>

definition astral_failure :: http_response where
  "astral_failure =
     answer 500 ''Internal Server Error''
       (replicate 199 (CHR ''x'') @ [CHR 0xF0, CHR 0x9F, CHR 0x98, CHR 0x80])"

definition env_astral_failure :: env where
  "env_astral_failure = demo_env (\<lambda>t req. Inr astral_failure) (Inr None)"

definition accented_failure :: http_response where
  "accented_failure =
     answer 500 ''Internal Server Error'' (concat (replicate 201 [CHR 0xC3, CHR 0xA9]))"

definition env_accented_failure :: env where
  "env_accented_failure = demo_env (\<lambda>t req. Inr accented_failure) (Inr None)"

definition env_null_response :: env where
  "env_null_response = demo_env (\<lambda>t req. Inr (answer 200 ''OK'' ''null'')) (Inr None)"


definition env_long_failure :: env where
  "env_long_failure = demo_env (\<lambda>t req. Inr long_failure) (Inr None)"

definition env_login_page :: env where
  "env_login_page = demo_env (\<lambda>t req. Inr login_page) (Inr None)"

section \<open>How a customer tool call runs\<close>

lemma makeJsonRpcRequest_eq:
  "makeJsonRpcRequest ev ep m p h s =
     (let req = jsonRpcRequest ev ep m p h (tick s); out = fetch ev (tick s) req
      in (case out of
            Inl e \<Rightarrow> Inl e
          | Inr res \<Rightarrow>
              if \<not> ok res then Inl (request_failed res)
              else (case JSON_parse ev (body res) of
                      Inr v \<Rightarrow> Inr v
                    | Inl msg \<Rightarrow> Inl (JsError msg None)),
          s\<lparr>tick := Suc (tick s),
            trace := trace s @ NetCall req out # parse_console ev out\<rparr>))"
  by (auto simp: makeJsonRpcRequest_def Let_def external_def emit_def parse_console_def
           split: sum.splits if_splits)

lemma status_request_failed [simp]: "status (request_failed res) = Some (http_status res)"
  by (simp add: request_failed_def)

lemma status_cannot_read [simp]: "status (cannot_read v k) = None"
  by (simp add: cannot_read_def)

lemma callCustomerTool_request_eq:
  "callCustomerTool_request ev n a tok s =
     (let req = jsonRpcRequest ev (customerMcpEndpoint (this s)) ''tools/call'' (call_params n a)
                  (auth_headers tok) (tick s);
          out = fetch ev (tick s) req;
          gout = generateAuthUrl ev (Suc (tick s)) (conversationId (this s)) (shopId (this s));
          x = exchange ev out
      in ((case x of
             Inr v \<Rightarrow> Inr v
           | Inl e \<Rightarrow>
               if status e = Some 401
               then (case gout of Inl e' \<Rightarrow> Inl e' | Inr url \<Rightarrow> Inr (auth_required_result url))
               else Inl e),
          s\<lparr>tick := (if recovers x then Suc (Suc (tick s)) else Suc (tick s)),
            trace := trace s @ NetCall req out # parse_console ev out @
              (if recovers x
               then [Console Log ''Unauthorized, generating authorization URL for customer'',
                     AuthUrlRequest (conversationId (this s)) (shopId (this s)) gout]
               else [])\<rparr>))"
  unfolding callCustomerTool_request_def makeJsonRpcRequest_eq exchange_def recovers_def
  by (auto simp: Let_def external_def emit_def split: sum.splits if_splits prod.splits)

lemma resolveAccessToken_eq:
  "resolveAccessToken ev s =
     (if customerAccessToken (this s) \<noteq> [] then (Inr (customerAccessToken (this s)), s)
      else
        (let out = getCustomerToken ev (tick s) (conversationId (this s));
             tok = (case out of Inr (Some t) \<Rightarrow> accessToken t | _ \<Rightarrow> [])
         in ((case out of Inl e \<Rightarrow> Inl e | Inr d \<Rightarrow> Inr tok),
             s\<lparr>this := (this s)\<lparr>customerAccessToken := tok\<rparr>,
               tick := Suc (tick s),
               trace := trace s @ TokenLookup (conversationId (this s)) out #
                 (if isl out \<or> tok \<noteq> [] then []
                  else [Console Log ''No token in database for conversation:''])\<rparr>)))"
  unfolding resolveAccessToken_def
  by (auto simp: Let_def external_def emit_def split: sum.splits if_splits option.splits)


lemma try_cached:
  assumes "customerAccessToken (this s) \<noteq> []"
  shows "callCustomerTool_try ev n a s =
           callCustomerTool_request ev n a (customerAccessToken (this s))
             (emit (Console Log ''Calling customer tool'') s)"
  using assms by (simp add: callCustomerTool_try_def resolveAccessToken_eq emit_def)

lemma try_lookup_threw:
  assumes "customerAccessToken (this s) = []"
      and "getCustomerToken ev (tick s) (conversationId (this s)) = Inl e"
  shows "callCustomerTool_try ev n a s =
           (Inl e, s\<lparr>tick := Suc (tick s),
                     trace := trace s @ [Console Log ''Calling customer tool'',
                                         TokenLookup (conversationId (this s)) (Inl e)]\<rparr>)"
  using assms by (simp add: callCustomerTool_try_def resolveAccessToken_eq emit_def)


lemma try_lookup_ok:
  assumes "customerAccessToken (this s) = []"
      and "getCustomerToken ev (tick s) (conversationId (this s)) = Inr d"
  shows "callCustomerTool_try ev n a s =
           callCustomerTool_request ev n a (case d of Some t \<Rightarrow> accessToken t | None \<Rightarrow> [])
             (s\<lparr>this := (this s)\<lparr>customerAccessToken := (case d of Some t \<Rightarrow> accessToken t | None \<Rightarrow> [])\<rparr>,
                tick := Suc (tick s),
                trace := trace s @ Console Log ''Calling customer tool'' #
                  TokenLookup (conversationId (this s)) (Inr d) #
                  (if (case d of Some t \<Rightarrow> accessToken t | None \<Rightarrow> []) \<noteq> [] then []
                   else [Console Log ''No token in database for conversation:''])\<rparr>)"
  using assms
  by (auto simp add: callCustomerTool_try_def resolveAccessToken_eq emit_def Let_def split: option.splits)

lemma callCustomerTool_after_request:
  "(case callCustomerTool_request ev n a tok s of
        (Inr v, s') \<Rightarrow> (Inr v, s')
      | (Inl error, s') \<Rightarrow>
          (Inr (internal_error_result n error),
           emit (Console Err (''Error calling tool '' @ n @ '':'')) s')) =
   (let req = jsonRpcRequest ev (customerMcpEndpoint (this s)) ''tools/call'' (call_params n a)
                  (auth_headers tok) (tick s);
        out = fetch ev (tick s) req;
        gout = generateAuthUrl ev (Suc (tick s)) (conversationId (this s)) (shopId (this s));
        x = exchange ev out
    in (Inr (request_value n x gout),
        s\<lparr>tick := (if recovers x then Suc (Suc (tick s)) else Suc (tick s)),
          trace := trace s @ NetCall req out # parse_console ev out @
              (if recovers x
               then [Console Log ''Unauthorized, generating authorization URL for customer'',
                     AuthUrlRequest (conversationId (this s)) (shopId (this s)) gout]
               else []) @
              (case request_failure x gout of
                 Some e \<Rightarrow> [Console Err (''Error calling tool '' @ n @ '':'')]
               | None \<Rightarrow> [])\<rparr>))"
  unfolding callCustomerTool_request_eq
  by (auto simp: Let_def emit_def recovers_def request_value_def request_failure_def
           split: sum.splits)


lemma callCustomerTool_cached:
  assumes "customerAccessToken (this s) \<noteq> []"
  shows "callCustomerTool ev n a s =
   (let req = jsonRpcRequest ev (customerMcpEndpoint (this s)) ''tools/call'' (call_params n a)
                  (auth_headers (customerAccessToken (this s))) (tick s);
        out = fetch ev (tick s) req;
        gout = generateAuthUrl ev (Suc (tick s)) (conversationId (this s)) (shopId (this s));
        x = exchange ev out
    in (Inr (request_value n x gout),
        s\<lparr>tick := (if recovers x then Suc (Suc (tick s)) else Suc (tick s)),
          trace := trace s @ Console Log ''Calling customer tool'' #
              NetCall req out # parse_console ev out @
              (if recovers x
               then [Console Log ''Unauthorized, generating authorization URL for customer'',
                     AuthUrlRequest (conversationId (this s)) (shopId (this s)) gout]
               else []) @
              (case request_failure x gout of
                 Some e \<Rightarrow> [Console Err (''Error calling tool '' @ n @ '':'')]
               | None \<Rightarrow> [])\<rparr>))"
  unfolding callCustomerTool_def try_cached [OF assms] callCustomerTool_after_request
  by (simp add: Let_def emit_def)

lemma callCustomerTool_lookup_threw:
  assumes "customerAccessToken (this s) = []"
      and "getCustomerToken ev (tick s) (conversationId (this s)) = Inl e"
  shows "callCustomerTool ev n a s =
           (Inr (internal_error_result n e),
            s\<lparr>tick := Suc (tick s),
              trace := trace s @ [Console Log ''Calling customer tool'',
                                  TokenLookup (conversationId (this s)) (Inl e),
                                  Console Err (''Error calling tool '' @ n @ '':'')]\<rparr>)"
  unfolding callCustomerTool_def try_lookup_threw [OF assms]
  by (simp add: emit_def)

lemma callCustomerTool_lookup_ok:
  assumes "customerAccessToken (this s) = []"
      and "getCustomerToken ev (tick s) (conversationId (this s)) = Inr d"
  shows "callCustomerTool ev n a s =
   (let tok = (case d of Some t \<Rightarrow> accessToken t | None \<Rightarrow> []);
        req = jsonRpcRequest ev (customerMcpEndpoint (this s)) ''tools/call'' (call_params n a)
                  (auth_headers tok) (Suc (tick s));
        out = fetch ev (Suc (tick s)) req;
        gout = generateAuthUrl ev (Suc (Suc (tick s))) (conversationId (this s)) (shopId (this s));
        x = exchange ev out
    in (Inr (request_value n x gout),
        s\<lparr>this := (this s)\<lparr>customerAccessToken := tok\<rparr>,
          tick := (if recovers x then Suc (Suc (Suc (tick s))) else Suc (Suc (tick s))),
          trace := trace s @ Console Log ''Calling customer tool'' #
              TokenLookup (conversationId (this s)) (Inr d) #
              (if tok \<noteq> [] then [] else [Console Log ''No token in database for conversation:'']) @
              NetCall req out # parse_console ev out @
              (if recovers x
               then [Console Log ''Unauthorized, generating authorization URL for customer'',
                     AuthUrlRequest (conversationId (this s)) (shopId (this s)) gout]
               else []) @
              (case request_failure x gout of
                 Some e \<Rightarrow> [Console Err (''Error calling tool '' @ n @ '':'')]
               | None \<Rightarrow> [])\<rparr>))"
  unfolding callCustomerTool_def try_lookup_ok [OF assms] callCustomerTool_after_request
  by (simp add: Let_def)

lemma parse_console_only [simp]:
  "NetCall q o' \<notin> set (parse_console ev out)"
  "TokenLookup c l \<notin> set (parse_console ev out)"
  "AuthUrlRequest c h g \<notin> set (parse_console ev out)"
  "Console Log m \<notin> set (parse_console ev out)"
  by (auto simp: parse_console_def split: sum.splits)

lemma exchange_401:
  "http_status res = 401 \<Longrightarrow> exchange ev (Inr res) = Inl (request_failed res)"
  by (simp add: exchange_def ok_def)


lemma parse_console_all [simp]: "list_all is_Console (parse_console ev out)"
  by (auto simp: parse_console_def split: sum.splits)

lemma customerAccessToken_same [simp]:
  "(c::MCPClient)\<lparr>customerAccessToken := customerAccessToken c\<rparr> = c"
  by (cases c) simp

lemma callCustomerTool_run:
  assumes run: "callCustomerTool ev n a s = (r, s')"
  obtains (threw) e where
      "customerAccessToken (this s) = []"
      "getCustomerToken ev (tick s) (conversationId (this s)) = Inl e"
      "r = Inr (internal_error_result n e)"
      "this s' = this s"
      "new_effects s s' = [Console Log ''Calling customer tool'',
                           TokenLookup (conversationId (this s)) (Inl e),
                           Console Err (''Error calling tool '' @ n @ '':'')]"
      "trace s' = trace s @ new_effects s s'"
  | (requested) lk tok t1 req out gout cs1 cs2 cs3 where
      "lk = (if customerAccessToken (this s) \<noteq> [] then []
             else [TokenLookup (conversationId (this s))
                     (getCustomerToken ev (tick s) (conversationId (this s)))])"
      "tok = (if customerAccessToken (this s) \<noteq> [] then customerAccessToken (this s)
              else case getCustomerToken ev (tick s) (conversationId (this s)) of
                     Inr (Some t) \<Rightarrow> accessToken t | _ \<Rightarrow> [])"
      "req = jsonRpcRequest ev (customerMcpEndpoint (this s)) ''tools/call'' (call_params n a)
               (auth_headers tok) t1"
      "out = fetch ev t1 req"
      "gout = generateAuthUrl ev (Suc t1) (conversationId (this s)) (shopId (this s))"
      "r = Inr (request_value n (exchange ev out) gout)"
      "this s' = (this s)\<lparr>customerAccessToken := tok\<rparr>"
      "new_effects s s' =
         Console Log ''Calling customer tool'' # lk @ cs1 @ NetCall req out # cs2 @
         (if recovers (exchange ev out)
          then [Console Log ''Unauthorized, generating authorization URL for customer'',
                AuthUrlRequest (conversationId (this s)) (shopId (this s)) gout]
          else []) @ cs3"
      "set cs1 \<subseteq> {Console Log ''No token in database for conversation:''}"
      "set cs2 \<subseteq> {Console Err ''MCP response not JSON''}"
      "set cs3 \<subseteq> {Console Err (''Error calling tool '' @ n @ '':'')}"
      "customerAccessToken (this s) = [] \<longrightarrow>
         (\<exists>d. getCustomerToken ev (tick s) (conversationId (this s)) = Inr d)"
      "t1 = (if customerAccessToken (this s) \<noteq> [] then tick s else Suc (tick s))"
      "trace s' = trace s @ new_effects s s'"
proof (cases "customerAccessToken (this s) = []")
  case False
  define req where "req = jsonRpcRequest ev (customerMcpEndpoint (this s)) ''tools/call''
    (call_params n a) (auth_headers (customerAccessToken (this s))) (tick s)"
  define out where "out = fetch ev (tick s) req"
  define gout where "gout = generateAuthUrl ev (Suc (tick s)) (conversationId (this s)) (shopId (this s))"
  define cs3 where "cs3 = (case request_failure (exchange ev out) gout of
      Some e \<Rightarrow> [Console Err (''Error calling tool '' @ n @ '':'')] | None \<Rightarrow> [])"
  from run [unfolded callCustomerTool_cached [OF False] Let_def, folded req_def,
      folded out_def gout_def, folded cs3_def]
  have r: "r = Inr (request_value n (exchange ev out) gout)"
    and s': "s' = s\<lparr>tick := (if recovers (exchange ev out) then Suc (Suc (tick s)) else Suc (tick s)),
          trace := trace s @ Console Log ''Calling customer tool'' #
              NetCall req out # parse_console ev out @
              (if recovers (exchange ev out)
               then [Console Log ''Unauthorized, generating authorization URL for customer'',
                     AuthUrlRequest (conversationId (this s)) (shopId (this s)) gout]
               else []) @ cs3\<rparr>"
    by simp_all
  show thesis
  proof (rule requested [of _ _ req "tick s" out gout "[]" "parse_console ev out" cs3])
    show "set (parse_console ev out) \<subseteq> {Console Err ''MCP response not JSON''}"
      by (auto simp: parse_console_def split: sum.splits)
    show "set cs3 \<subseteq> {Console Err (''Error calling tool '' @ n @ '':'')}"
      by (auto simp: cs3_def split: option.splits)
    show "this s' = (this s)\<lparr>customerAccessToken := customerAccessToken (this s)\<rparr>"
      unfolding s' by simp
  qed (simp_all add: False r s' new_effects_def req_def out_def gout_def)
next
  case True
  show thesis
  proof (cases "getCustomerToken ev (tick s) (conversationId (this s))")
    case (Inl e)
    from run [unfolded callCustomerTool_lookup_threw [OF True Inl]]
    show thesis
      by (intro threw [of e]) (auto simp: new_effects_def True Inl)
  next
    case (Inr d)
    define tok where "tok = (case d of Some t \<Rightarrow> accessToken t | None \<Rightarrow> [])"
    define req where "req = jsonRpcRequest ev (customerMcpEndpoint (this s)) ''tools/call''
      (call_params n a) (auth_headers tok) (Suc (tick s))"
    define out where "out = fetch ev (Suc (tick s)) req"
    define gout where "gout = generateAuthUrl ev (Suc (Suc (tick s))) (conversationId (this s)) (shopId (this s))"
    define cs1 where "cs1 = (if tok \<noteq> [] then []
       else [Console Log ''No token in database for conversation:''])"
    define cs3 where "cs3 = (case request_failure (exchange ev out) gout of
        Some e \<Rightarrow> [Console Err (''Error calling tool '' @ n @ '':'')] | None \<Rightarrow> [])"
    from run [unfolded callCustomerTool_lookup_ok [OF True Inr] Let_def, folded tok_def,
        folded req_def, folded out_def gout_def cs1_def, folded cs3_def]
    have r: "r = Inr (request_value n (exchange ev out) gout)"
      and s': "s' = s\<lparr>this := (this s)\<lparr>customerAccessToken := tok\<rparr>,
          tick := (if recovers (exchange ev out) then Suc (Suc (Suc (tick s))) else Suc (Suc (tick s))),
          trace := trace s @ Console Log ''Calling customer tool'' #
              TokenLookup (conversationId (this s)) (Inr d) # cs1 @
              NetCall req out # parse_console ev out @
              (if recovers (exchange ev out)
               then [Console Log ''Unauthorized, generating authorization URL for customer'',
                     AuthUrlRequest (conversationId (this s)) (shopId (this s)) gout]
               else []) @ cs3\<rparr>"
      by simp_all
    have tok: "tok = (case getCustomerToken ev (tick s) (conversationId (this s)) of
                     Inr (Some t) \<Rightarrow> accessToken t | _ \<Rightarrow> [])"
      by (simp add: Inr tok_def split: option.splits)
    show thesis
    proof (rule requested [of _ tok req "Suc (tick s)" out gout cs1 "parse_console ev out" cs3])
      show "set (parse_console ev out) \<subseteq> {Console Err ''MCP response not JSON''}"
        by (auto simp: parse_console_def split: sum.splits)
      show "set cs3 \<subseteq> {Console Err (''Error calling tool '' @ n @ '':'')}"
        by (auto simp: cs3_def split: option.splits)
      show "set cs1 \<subseteq> {Console Log ''No token in database for conversation:''}"
        by (auto simp: cs1_def)
    qed (simp_all add: True Inr r s' new_effects_def req_def out_def gout_def tok_def)
  qed
qed



section \<open>Evaluating the demonstration shop\<close>

lemmas demo_defs = demo_env_def demo_parse_def answer_def unauthorized_def long_failure_def
  login_page_def healthy_fetch_def storefront_url_def customer_url_def
  fresh_client_def shop_client_def fresh_state_def shop_state_def signed_in_state_def
  search_tool_def orders_tool_def track_tool_def fresh_session_def demo_args_def
  greeting_def search_request_def demo_services_def search_and_stop_def

lemmas client_defs = callTool_def advertises_def callCustomerTool_def callCustomerTool_try_def
  resolveAccessToken_def callCustomerTool_request_def callStorefrontTool_def
  makeJsonRpcRequest_def jsonRpcRequest_def result_or_response_def call_params_def
  json_headers_def auth_headers_def ok_def external_def emit_def not_found_def
  request_failed_def

lemma callStorefrontTool_eq:
  "callStorefrontTool ev n a s =
     (let req = jsonRpcRequest ev (storefrontMcpEndpoint (this s)) ''tools/call'' (call_params n a)
                  json_headers (tick s);
          out = fetch ev (tick s) req;
          x = exchange ev out
      in (x, s\<lparr>tick := Suc (tick s),
               trace := trace s @ Console Log ''Calling storefront tool'' # NetCall req out #
                 parse_console ev out @
                 (if isl x then [Console Err (''Error calling tool '' @ n @ '':'')] else [])\<rparr>))"
  unfolding callStorefrontTool_def makeJsonRpcRequest_eq exchange_def
  by (auto simp: Let_def emit_def split: sum.splits)

lemma eval_401:
  "callTool env_401 ''get_orders'' (JObj []) shop_state =
     (Inr (auth_required_result ''https://auth.example/c1/shop1''),
      \<lparr> this = shop_client, tick = 3,
        trace = [Console Log ''Calling customer tool'',
                 TokenLookup ''c1'' (Inr None),
                 Console Log ''No token in database for conversation:'',
                 NetCall (jsonRpcRequest env_401 customer_url ''tools/call''
                            (call_params ''get_orders'' (JObj [])) json_headers 1) (Inr unauthorized),
                 Console Log ''Unauthorized, generating authorization URL for customer'',
                 AuthUrlRequest ''c1'' ''shop1'' (Inr ''https://auth.example/c1/shop1'')] \<rparr>)"
  by (simp add: env_401_def client_defs demo_defs Let_def)


section \<open>Dispatch\<close>

text \<open>
  C1, as amended. When a tool advertised by the customer server is dispatched and the
  \<^verbatim>\<open>tools/call\<close> request is answered with HTTP status 401, the request was the one sent
  to the customer endpoint and the authorization-URL generator is asked with the
  conversation id and the shop id of the client. When the generator answers a URL, the
  dispatch returns the object \<^verbatim>\<open>{error: {type: "auth_required", data}}\<close> whose \<^verbatim>\<open>data\<close>
  is the message that embeds that URL; when the generator throws, the dispatch returns
  the object \<^verbatim>\<open>{error: {type: "internal_error", data}}\<close> whose \<^verbatim>\<open>data\<close> carries the
  generator's message. Either way the dispatch returns a value: the 401 is never thrown
  to the caller.
\<close>

theorem customer_401_yields_auth_required:
  assumes owned: "advertises (customerTools (this s)) toolName"
      and run: "callTool ev toolName toolArgs s = (r, s')"
      and req: "NetCall req (Inr res) \<in> set (new_effects s s')"
      and unauth: "http_status res = 401"
  shows "endpoint req = customerMcpEndpoint (this s) \<and> rpc_method req = ''tools/call'' \<and>
         (\<exists>out. AuthUrlRequest (conversationId (this s)) (shopId (this s)) out \<in> set (new_effects s s')
           \<and> r = Inr (case out of
                        Inr url \<Rightarrow>
                          JObj [(''error'', JObj [(''type'', JStr ''auth_required''),
                            (''data'', JStr (''You need to authorize the app to access your customer data. [Click here to authorize]('' @ url @ '')''))])]
                      | Inl e \<Rightarrow>
                          JObj [(''error'', JObj [(''type'', JStr ''internal_error''),
                            (''data'', JStr (''Error calling tool '' @ toolName @ '': '' @ message e))])]))"
proof -
  have run': "callCustomerTool ev toolName toolArgs s = (r, s')"
    using owned run by (simp add: callTool_def)
  from run' show ?thesis
  proof (cases rule: callCustomerTool_run)
    case (threw e)
    with req show ?thesis by simp
  next
    case (requested lk tok t1 rq out gout cs1 cs2 cs3)
    from req requested have "NetCall req (Inr res) = NetCall rq out"
      by (auto split: if_splits)
    hence rq: "rq = req" and out: "out = Inr res" by simp_all
    have x: "exchange ev out = Inl (request_failed res)"
      using out unauth by (simp add: exchange_401)
    have asked: "AuthUrlRequest (conversationId (this s)) (shopId (this s)) gout
                   \<in> set (new_effects s s')"
      using requested(8) x unauth by (simp add: recovers_def)
    have returned: "r = Inr (case gout of
                        Inr url \<Rightarrow>
                          JObj [(''error'', JObj [(''type'', JStr ''auth_required''),
                            (''data'', JStr (''You need to authorize the app to access your customer data. [Click here to authorize]('' @ url @ '')''))])]
                      | Inl e \<Rightarrow>
                          JObj [(''error'', JObj [(''type'', JStr ''internal_error''),
                            (''data'', JStr (''Error calling tool '' @ toolName @ '': '' @ message e))])])"
      using requested(6) x unauth
      by (simp add: request_value_def auth_required_result_def internal_error_result_def
            error_result_def split: sum.splits)
    have sent_to: "endpoint req = customerMcpEndpoint (this s) \<and> rpc_method req = ''tools/call''"
      using requested(3) rq by (simp add: jsonRpcRequest_def)
    from sent_to asked returned show ?thesis by blast
  qed
qed

text \<open>
  The claim as stated fails when the generator throws: the dispatch then returns the
  \<^verbatim>\<open>internal_error\<close> object, not the \<^verbatim>\<open>auth_required\<close> one.
\<close>

lemma eval_401_no_url:
  "callTool env_401_no_url ''get_orders'' (JObj []) shop_state =
     (Inr (internal_error_result ''get_orders'' (JsError ''authorization service unavailable'' None)),
      \<lparr> this = shop_client, tick = 3,
        trace = [Console Log ''Calling customer tool'',
                 TokenLookup ''c1'' (Inr None),
                 Console Log ''No token in database for conversation:'',
                 NetCall (jsonRpcRequest env_401_no_url customer_url ''tools/call''
                            (call_params ''get_orders'' (JObj [])) json_headers 1) (Inr unauthorized),
                 Console Log ''Unauthorized, generating authorization URL for customer'',
                 AuthUrlRequest ''c1'' ''shop1'' (Inl (JsError ''authorization service unavailable'' None)),
                 Console Err ''Error calling tool get_orders:''] \<rparr>)"
  by (simp add: env_401_no_url_def env_401_def client_defs demo_defs Let_def)

theorem generator_failure_is_internal_error_counterexample:
  "advertises (customerTools (this shop_state)) ''get_orders''
   \<and> NetCall (jsonRpcRequest env_401_no_url customer_url ''tools/call''
                (call_params ''get_orders'' (JObj [])) json_headers 1) (Inr unauthorized)
       \<in> set (new_effects shop_state (snd (callTool env_401_no_url ''get_orders'' (JObj []) shop_state)))
   \<and> http_status unauthorized = 401
   \<and> fst (callTool env_401_no_url ''get_orders'' (JObj []) shop_state) =
       Inr (JObj [(''error'', JObj [(''type'', JStr ''internal_error''),
              (''data'', JStr ''Error calling tool get_orders: authorization service unavailable'')])])"
  unfolding new_effects_def eval_401_no_url
  by (simp add: shop_state_def internal_error_result_def error_result_def)
     (simp add: advertises_def demo_defs)

theorem customer_401_yields_auth_required_witness:
  "advertises (customerTools (this shop_state)) ''get_orders''
   \<and> NetCall (jsonRpcRequest env_401 customer_url ''tools/call''
                (call_params ''get_orders'' (JObj [])) json_headers 1) (Inr unauthorized)
       \<in> set (new_effects shop_state (snd (callTool env_401 ''get_orders'' (JObj []) shop_state)))
   \<and> http_status unauthorized = 401
   \<and> fst (callTool env_401 ''get_orders'' (JObj []) shop_state) =
       Inr (JObj [(''error'', JObj [(''type'', JStr ''auth_required''),
              (''data'', JStr ''You need to authorize the app to access your customer data. [Click here to authorize](https://auth.example/c1/shop1)'')])])"
proof -
  let ?s' = "snd (callTool env_401 ''get_orders'' (JObj []) shop_state)"
  let ?r = "fst (callTool env_401 ''get_orders'' (JObj []) shop_state)"
  let ?req = "jsonRpcRequest env_401 customer_url ''tools/call''
                (call_params ''get_orders'' (JObj [])) json_headers 1"
  have owned: "advertises (customerTools (this shop_state)) ''get_orders''"
    by (simp add: advertises_def demo_defs)
  have run: "callTool env_401 ''get_orders'' (JObj []) shop_state = (?r, ?s')"
    by simp
  have new: "new_effects shop_state ?s' =
               [Console Log ''Calling customer tool'',
                 TokenLookup ''c1'' (Inr None),
                 Console Log ''No token in database for conversation:'',
                 NetCall ?req (Inr unauthorized),
                 Console Log ''Unauthorized, generating authorization URL for customer'',
                 AuthUrlRequest ''c1'' ''shop1'' (Inr ''https://auth.example/c1/shop1'')]"
    unfolding new_effects_def eval_401 by (simp add: shop_state_def)
  have req: "NetCall ?req (Inr unauthorized) \<in> set (new_effects shop_state ?s')"
    by (simp add: new)
  have unauth: "http_status unauthorized = 401"
    by (simp add: demo_defs)
  from customer_401_yields_auth_required [OF owned run req unauth, THEN conjunct2, THEN conjunct2]
  obtain out where
    asked: "AuthUrlRequest (conversationId (this shop_state)) (shopId (this shop_state)) out
       \<in> set (new_effects shop_state ?s')"
    and res: "?r = Inr (case out of
                        Inr url \<Rightarrow>
                          JObj [(''error'', JObj [(''type'', JStr ''auth_required''),
                            (''data'', JStr (''You need to authorize the app to access your customer data. [Click here to authorize]('' @ url @ '')''))])]
                      | Inl e \<Rightarrow>
                          JObj [(''error'', JObj [(''type'', JStr ''internal_error''),
                            (''data'', JStr (''Error calling tool '' @ ''get_orders'' @ '': '' @ message e))])])"
    by (elim exE conjE)
  from asked have "out = Inr ''https://auth.example/c1/shop1''"
    by (simp add: new)
  with res have "?r = Inr (JObj [(''error'', JObj [(''type'', JStr ''auth_required''),
              (''data'', JStr ''You need to authorize the app to access your customer data. [Click here to authorize](https://auth.example/c1/shop1)'')])])"
    by simp
  with owned req unauth show ?thesis by simp
qed


text \<open>
  C2. A tool name advertised by both catalogs is dispatched to \<^verbatim>\<open>callCustomerTool\<close>:
  every request made is a \<^verbatim>\<open>tools/call\<close> for that tool sent to the customer endpoint,
  and \<^verbatim>\<open>callStorefrontTool\<close> (which logs that it was called) is not entered.
\<close>

theorem collision_routes_to_customer:
  assumes cust: "advertises (customerTools (this s)) toolName"
      and store: "advertises (storefrontTools (this s)) toolName"
  shows "callTool ev toolName toolArgs s = callCustomerTool ev toolName toolArgs s
         \<and> (\<forall>req out. NetCall req out \<in> set (new_effects s (snd (callTool ev toolName toolArgs s)))
               \<longrightarrow> endpoint req = customerMcpEndpoint (this s) \<and> rpc_method req = ''tools/call''
                   \<and> params req = JObj [(''name'', JStr toolName), (''arguments'', toolArgs)])
         \<and> Console Log ''Calling storefront tool''
             \<notin> set (new_effects s (snd (callTool ev toolName toolArgs s)))"
proof -
  have eq: "callTool ev toolName toolArgs s = callCustomerTool ev toolName toolArgs s"
    using cust by (simp add: callTool_def)
  obtain r s' where run: "callCustomerTool ev toolName toolArgs s = (r, s')"
    by (cases "callCustomerTool ev toolName toolArgs s")
  from run have "(\<forall>req out. NetCall req out \<in> set (new_effects s s')
               \<longrightarrow> endpoint req = customerMcpEndpoint (this s) \<and> rpc_method req = ''tools/call''
                   \<and> params req = JObj [(''name'', JStr toolName), (''arguments'', toolArgs)])
         \<and> Console Log ''Calling storefront tool'' \<notin> set (new_effects s s')"
  proof (cases rule: callCustomerTool_run)
    case (threw e)
    then show ?thesis by simp
  next
    case (requested lk tok t1 rq out gout cs1 cs2 cs3)
    then show ?thesis
      by (auto simp: jsonRpcRequest_def call_params_def split: if_splits)
  qed
  with eq run show ?thesis by simp
qed

lemma eval_track_order:
  "callTool env_healthy ''track_order'' (JObj []) shop_state =
     (Inr (JObj [(''content'', JArr [JStr ''red shoes''])]),
      \<lparr> this = shop_client, tick = 2,
        trace = [Console Log ''Calling customer tool'',
                 TokenLookup ''c1'' (Inr None),
                 Console Log ''No token in database for conversation:'',
                 NetCall (jsonRpcRequest env_healthy customer_url ''tools/call''
                            (call_params ''track_order'' (JObj [])) json_headers 1)
                         (Inr (answer 200 ''OK'' ''products''))] \<rparr>)"
  by (simp add: env_healthy_def client_defs demo_defs Let_def)

theorem collision_routes_to_customer_witness:
  "advertises (customerTools (this shop_state)) ''track_order''
   \<and> advertises (storefrontTools (this shop_state)) ''track_order''
   \<and> callTool env_healthy ''track_order'' (JObj []) shop_state =
       callCustomerTool env_healthy ''track_order'' (JObj []) shop_state
   \<and> new_effects shop_state (snd (callTool env_healthy ''track_order'' (JObj []) shop_state)) =
       [Console Log ''Calling customer tool'',
        TokenLookup ''c1'' (Inr None),
        Console Log ''No token in database for conversation:'',
        NetCall (jsonRpcRequest env_healthy customer_url ''tools/call''
                   (call_params ''track_order'' (JObj [])) json_headers 1)
                (Inr (answer 200 ''OK'' ''products''))]"
proof -
  have cust: "advertises (customerTools (this shop_state)) ''track_order''"
    by (simp add: advertises_def demo_defs)
  have store: "advertises (storefrontTools (this shop_state)) ''track_order''"
    by (simp add: advertises_def demo_defs)
  have new: "new_effects shop_state (snd (callTool env_healthy ''track_order'' (JObj []) shop_state)) =
       [Console Log ''Calling customer tool'',
        TokenLookup ''c1'' (Inr None),
        Console Log ''No token in database for conversation:'',
        NetCall (jsonRpcRequest env_healthy customer_url ''tools/call''
                   (call_params ''track_order'' (JObj [])) json_headers 1)
                (Inr (answer 200 ''OK'' ''products''))]"
    unfolding new_effects_def eval_track_order by (simp add: shop_state_def)
  from collision_routes_to_customer [OF cust store, of env_healthy "JObj []"] cust store new
  show ?thesis by blast
qed

text \<open>
  C3, as amended. A dispatch to a tool of the customer server never throws: a failure of
  the token lookup, of the exchange (network error, status other than 2xx and 401,
  body that is not JSON, \<^verbatim>\<open>null\<close> response) or of the authorization-URL generator is
  returned as the object \<^verbatim>\<open>{error: {type: "internal_error", data}}\<close> whose \<^verbatim>\<open>data\<close>
  names the tool and carries the error's message. A dispatch to a tool that only the
  storefront server advertises logs the failure of the exchange, last of all, and throws
  it again; a dispatch of a name that nobody advertises throws the not-found error. The
  last four conjuncts say what error each kind of failed exchange is.
\<close>

theorem dispatch_failures:
  assumes run: "callTool ev toolName toolArgs s = (r, s')"
  shows "(advertises (customerTools (this s)) toolName \<longrightarrow>
            (\<exists>v. r = Inr v) \<and>
            (\<forall>e. (\<exists>c. TokenLookup c (Inl e) \<in> set (new_effects s s'))
                  \<or> (\<exists>req out. NetCall req out \<in> set (new_effects s s') \<and> exchange ev out = Inl e
                        \<and> status e \<noteq> Some 401)
                  \<or> (\<exists>c h. AuthUrlRequest c h (Inl e) \<in> set (new_effects s s'))
                \<longrightarrow> r = Inr (JObj [(''error'', JObj [(''type'', JStr ''internal_error''),
                            (''data'', JStr (''Error calling tool '' @ toolName @ '': '' @ message e))])])))
       \<and> (\<not> advertises (customerTools (this s)) toolName
            \<and> advertises (storefrontTools (this s)) toolName \<longrightarrow>
            (\<forall>req out e. NetCall req out \<in> set (new_effects s s') \<and> exchange ev out = Inl e
                \<longrightarrow> r = Inl e
                    \<and> last (new_effects s s') = Console Err (''Error calling tool '' @ toolName @ '':'')))
       \<and> (\<not> advertises (customerTools (this s)) toolName
            \<and> \<not> advertises (storefrontTools (this s)) toolName \<longrightarrow>
            r = Inl (JsError (''Tool '' @ toolName @ '' not found'') None))
       \<and> (\<forall>e. exchange ev (Inl e) = Inl e)
       \<and> (\<forall>res. \<not> ok res \<longrightarrow>
            exchange ev (Inr res) =
              Inl (JsError (''Request failed: '' @ dec (http_status res) @ '' '' @ statusText res
                              @ '' '' @ separator @ '' '' @ slice_0 200 (body res))
                           (Some (http_status res))))
       \<and> (\<forall>res msg. ok res \<and> JSON_parse ev (body res) = Inl msg \<longrightarrow>
            exchange ev (Inr res) = Inl (JsError msg None))
       \<and> (\<forall>res. ok res \<and> JSON_parse ev (body res) = Inr JNull \<longrightarrow>
            exchange ev (Inr res) =
              Inl (JsError (''Cannot read properties of null (reading '' @ [CHR 0x27] @ ''result''
                              @ [CHR 0x27] @ '')'') None))"
proof (intro conjI impI allI)
  assume cust: "advertises (customerTools (this s)) toolName"
  with run have run': "callCustomerTool ev toolName toolArgs s = (r, s')"
    by (simp add: callTool_def)
  from run' show "\<exists>v. r = Inr v"
    by (cases rule: callCustomerTool_run) simp_all
  fix e
  assume failed: "(\<exists>c. TokenLookup c (Inl e) \<in> set (new_effects s s'))
                  \<or> (\<exists>req out. NetCall req out \<in> set (new_effects s s') \<and> exchange ev out = Inl e
                        \<and> status e \<noteq> Some 401)
                  \<or> (\<exists>c h. AuthUrlRequest c h (Inl e) \<in> set (new_effects s s'))"
  from run' have "r = Inr (internal_error_result toolName e)"
  proof (cases rule: callCustomerTool_run)
    case (threw e')
    with failed show ?thesis by auto
  next
    case (requested lk tok t1 rq out gout cs1 cs2 cs3)
    from failed consider
        (lookup) c where "TokenLookup c (Inl e) \<in> set (new_effects s s')"
      | (exchanged) req' out' where "NetCall req' out' \<in> set (new_effects s s')"
          "exchange ev out' = Inl e" "status e \<noteq> Some 401"
      | (generator) c h where "AuthUrlRequest c h (Inl e) \<in> set (new_effects s s')"
      by blast
    then show ?thesis
    proof cases
      case lookup
      with requested show ?thesis by (auto split: if_splits)
    next
      case exchanged
      with requested show ?thesis by (auto simp: request_value_def split: if_splits)
    next
      case generator
      with requested show ?thesis
        by (auto simp: request_value_def recovers_def split: if_splits sum.splits)
    qed
  qed
  then show "r = Inr (JObj [(''error'', JObj [(''type'', JStr ''internal_error''),
                            (''data'', JStr (''Error calling tool '' @ toolName @ '': '' @ message e))])])"
    by (simp add: internal_error_result_def error_result_def)
next
  fix req out e
  assume only: "\<not> advertises (customerTools (this s)) toolName
            \<and> advertises (storefrontTools (this s)) toolName"
    and failed: "NetCall req out \<in> set (new_effects s s') \<and> exchange ev out = Inl e"
  from only run have run': "callStorefrontTool ev toolName toolArgs s = (r, s')"
    by (simp add: callTool_def)
  from run' failed show "r = Inl e"
    unfolding callStorefrontTool_eq
    by (auto simp: Let_def new_effects_def split: if_splits)
  from run' failed show "last (new_effects s s') = Console Err (''Error calling tool '' @ toolName @ '':'')"
    unfolding callStorefrontTool_eq
    by (auto simp: Let_def new_effects_def split: if_splits)
next
  assume "\<not> advertises (customerTools (this s)) toolName
            \<and> \<not> advertises (storefrontTools (this s)) toolName"
  with run show "r = Inl (JsError (''Tool '' @ toolName @ '' not found'') None)"
    by (simp add: callTool_def not_found_def)
next
  fix e show "exchange ev (Inl e) = Inl e"
    by (simp add: exchange_def)
next
  fix res assume "\<not> ok res"
  then show "exchange ev (Inr res) =
              Inl (JsError (''Request failed: '' @ dec (http_status res) @ '' '' @ statusText res
                              @ '' '' @ separator @ '' '' @ slice_0 200 (body res))
                           (Some (http_status res)))"
    by (simp add: exchange_def request_failed_def)
next
  fix res msg assume "ok res \<and> JSON_parse ev (body res) = Inl msg"
  then show "exchange ev (Inr res) = Inl (JsError msg None)"
    by (simp add: exchange_def)
next
  fix res assume "ok res \<and> JSON_parse ev (body res) = Inr JNull"
  then show "exchange ev (Inr res) =
              Inl (JsError (''Cannot read properties of null (reading '' @ [CHR 0x27] @ ''result''
                              @ [CHR 0x27] @ '')'') None)"
    by (simp add: exchange_def result_or_response_def cannot_read_def)
qed

text \<open>
  The claim as stated fails for the storefront server: with the network down, dispatching
  \<^verbatim>\<open>search_products\<close> throws the error of \<^verbatim>\<open>fetch\<close> instead of returning an
  \<^verbatim>\<open>internal_error\<close> object.
\<close>

lemma eval_search_down:
  "callTool env_down ''search_products'' (JObj []) shop_state =
     (Inl (JsError ''fetch failed'' None),
      \<lparr> this = shop_client, tick = 1,
        trace = [Console Log ''Calling storefront tool'',
                 NetCall (jsonRpcRequest env_down storefront_url ''tools/call''
                            (call_params ''search_products'' (JObj [])) json_headers 0)
                         (Inl (JsError ''fetch failed'' None)),
                 Console Err ''Error calling tool search_products:''] \<rparr>)"
  by (simp add: env_down_def client_defs demo_defs Let_def)

theorem storefront_failure_is_thrown_counterexample:
  "advertises (storefrontTools (this shop_state)) ''search_products''
   \<and> fst (callTool env_down ''search_products'' (JObj []) shop_state)
       = Inl (JsError ''fetch failed'' None)
   \<and> fst (callTool env_down ''search_products'' (JObj []) shop_state)
       \<noteq> Inr (JObj [(''error'', JObj [(''type'', JStr ''internal_error''),
                 (''data'', JStr ''Error calling tool search_products: fetch failed'')])])"
  by (simp add: eval_search_down) (simp add: advertises_def demo_defs)

lemma eval_orders_down:
  "callTool env_down ''get_orders'' (JObj []) shop_state =
     (Inr (internal_error_result ''get_orders'' (JsError ''fetch failed'' None)),
      \<lparr> this = shop_client, tick = 2,
        trace = [Console Log ''Calling customer tool'',
                 TokenLookup ''c1'' (Inr None),
                 Console Log ''No token in database for conversation:'',
                 NetCall (jsonRpcRequest env_down customer_url ''tools/call''
                            (call_params ''get_orders'' (JObj [])) json_headers 1)
                         (Inl (JsError ''fetch failed'' None)),
                 Console Err ''Error calling tool get_orders:''] \<rparr>)"
  by (simp add: env_down_def client_defs demo_defs Let_def)

lemma eval_orders_null:
  "callTool env_null_response ''get_orders'' (JObj []) shop_state =
     (Inr (internal_error_result ''get_orders'' (cannot_read JNull ''result'')),
      \<lparr> this = shop_client, tick = 2,
        trace = [Console Log ''Calling customer tool'',
                 TokenLookup ''c1'' (Inr None),
                 Console Log ''No token in database for conversation:'',
                 NetCall (jsonRpcRequest env_null_response customer_url ''tools/call''
                            (call_params ''get_orders'' (JObj [])) json_headers 1)
                         (Inr (answer 200 ''OK'' ''null'')),
                 Console Err ''Error calling tool get_orders:''] \<rparr>)"
  by (simp add: env_null_response_def client_defs demo_defs Let_def)

theorem dispatch_failures_witness:
  "advertises (customerTools (this shop_state)) ''get_orders''
   \<and> fst (callTool env_down ''get_orders'' (JObj []) shop_state) =
       Inr (JObj [(''error'', JObj [(''type'', JStr ''internal_error''),
              (''data'', JStr ''Error calling tool get_orders: fetch failed'')])])
   \<and> fst (callTool env_null_response ''get_orders'' (JObj []) shop_state) =
       Inr (JObj [(''error'', JObj [(''type'', JStr ''internal_error''),
              (''data'', JStr (''Error calling tool get_orders: Cannot read properties of null (reading ''
                                 @ [CHR 0x27] @ ''result'' @ [CHR 0x27] @ '')''))])])
   \<and> \<not> advertises (customerTools (this shop_state)) ''search_products''
   \<and> advertises (storefrontTools (this shop_state)) ''search_products''
   \<and> fst (callTool env_down ''search_products'' (JObj []) shop_state) =
       Inl (JsError ''fetch failed'' None)
   \<and> last (new_effects shop_state (snd (callTool env_down ''search_products'' (JObj []) shop_state))) =
       Console Err ''Error calling tool search_products:''
   \<and> \<not> advertises (customerTools (this shop_state)) ''get_weather''
   \<and> \<not> advertises (storefrontTools (this shop_state)) ''get_weather''
   \<and> fst (callTool env_down ''get_weather'' (JObj []) shop_state) =
       Inl (JsError ''Tool get_weather not found'' None)"
proof -
  let ?e = "JsError ''fetch failed'' None"
  let ?n = "JsError (''Cannot read properties of null (reading '' @ [CHR 0x27] @ ''result''
                       @ [CHR 0x27] @ '')'') None"
  have x: "exchange env_down (Inl ?e) = Inl ?e" "status ?e \<noteq> Some 401"
    by (simp_all add: exchange_def)
  have a1: "advertises (customerTools (this shop_state)) ''get_orders''"
    by (simp add: advertises_def demo_defs)
  have a2: "\<not> advertises (customerTools (this shop_state)) ''search_products''"
    "advertises (storefrontTools (this shop_state)) ''search_products''"
    by (simp_all add: advertises_def demo_defs)
  have a3: "\<not> advertises (customerTools (this shop_state)) ''get_weather''"
    "\<not> advertises (storefrontTools (this shop_state)) ''get_weather''"
    by (simp_all add: advertises_def demo_defs)
  have run1: "callTool env_down ''get_orders'' (JObj []) shop_state =
     (fst (callTool env_down ''get_orders'' (JObj []) shop_state),
      snd (callTool env_down ''get_orders'' (JObj []) shop_state))"
    by simp
  have m1: "NetCall (jsonRpcRequest env_down customer_url ''tools/call''
                (call_params ''get_orders'' (JObj [])) json_headers 1) (Inl ?e)
      \<in> set (new_effects shop_state (snd (callTool env_down ''get_orders'' (JObj []) shop_state)))"
    unfolding new_effects_def eval_orders_down by (simp add: shop_state_def)
  have run2: "callTool env_down ''search_products'' (JObj []) shop_state =
     (fst (callTool env_down ''search_products'' (JObj []) shop_state),
      snd (callTool env_down ''search_products'' (JObj []) shop_state))"
    by simp
  have m2: "NetCall (jsonRpcRequest env_down storefront_url ''tools/call''
                (call_params ''search_products'' (JObj [])) json_headers 0) (Inl ?e)
      \<in> set (new_effects shop_state (snd (callTool env_down ''search_products'' (JObj []) shop_state)))"
    unfolding new_effects_def eval_search_down by (simp add: shop_state_def)
  have run3: "callTool env_down ''get_weather'' (JObj []) shop_state =
     (fst (callTool env_down ''get_weather'' (JObj []) shop_state),
      snd (callTool env_down ''get_weather'' (JObj []) shop_state))"
    by simp
  have run4: "callTool env_null_response ''get_orders'' (JObj []) shop_state =
     (fst (callTool env_null_response ''get_orders'' (JObj []) shop_state),
      snd (callTool env_null_response ''get_orders'' (JObj []) shop_state))"
    by simp
  have m4: "NetCall (jsonRpcRequest env_null_response customer_url ''tools/call''
                (call_params ''get_orders'' (JObj [])) json_headers 1) (Inr (answer 200 ''OK'' ''null''))
      \<in> set (new_effects shop_state (snd (callTool env_null_response ''get_orders'' (JObj []) shop_state)))"
    unfolding new_effects_def eval_orders_null by (simp add: shop_state_def)
  have k4: "ok (answer 200 ''OK'' ''null'')
            \<and> JSON_parse env_null_response (body (answer 200 ''OK'' ''null'')) = Inr JNull"
    by (simp add: ok_def answer_def env_null_response_def demo_env_def demo_parse_def)
  note x4 = dispatch_failures [OF run4, THEN conjunct2, THEN conjunct2, THEN conjunct2,
      THEN conjunct2, THEN conjunct2, THEN conjunct2, rule_format, OF k4]
  note d1 = dispatch_failures [OF run1, THEN conjunct1, rule_format, OF a1, THEN conjunct2,
      rule_format]
  note d4 = dispatch_failures [OF run4, THEN conjunct1, rule_format, OF a1, THEN conjunct2,
      rule_format]
  note d2 = dispatch_failures [OF run2, THEN conjunct2, THEN conjunct1, rule_format]
  note d3 = dispatch_failures [OF run3, THEN conjunct2, THEN conjunct2, THEN conjunct1, rule_format]
  have r1: "fst (callTool env_down ''get_orders'' (JObj []) shop_state) =
       Inr (JObj [(''error'', JObj [(''type'', JStr ''internal_error''),
              (''data'', JStr (''Error calling tool '' @ ''get_orders'' @ '': '' @ message ?e))])])"
    using m1 x by (intro d1 disjI2 disjI1 exI conjI)
  have r4: "fst (callTool env_null_response ''get_orders'' (JObj []) shop_state) =
       Inr (JObj [(''error'', JObj [(''type'', JStr ''internal_error''),
              (''data'', JStr (''Error calling tool '' @ ''get_orders'' @ '': '' @ message ?n))])])"
    using m4 x4 by (intro d4 disjI2 disjI1 exI conjI) simp_all
  have r2: "fst (callTool env_down ''search_products'' (JObj []) shop_state) = Inl ?e
            \<and> last (new_effects shop_state (snd (callTool env_down ''search_products'' (JObj []) shop_state))) =
                Console Err (''Error calling tool '' @ ''search_products'' @ '':'')"
    using a2 m2 x by (intro d2) simp_all
  have r3: "fst (callTool env_down ''get_weather'' (JObj []) shop_state) =
              Inl (JsError (''Tool '' @ ''get_weather'' @ '' not found'') None)"
    using a3 by (intro d3) simp
  from a1 a2 a3 r1 r2 r3 r4 show ?thesis by simp
qed

text \<open>
  C4. Dispatching a name that neither catalog advertises throws an error whose message
  names the tool, and does nothing else: the state, and with it the trace and the clock,
  is unchanged, so no request was sent.
\<close>

theorem unknown_tool_not_found:
  assumes "\<not> advertises (customerTools (this s)) toolName"
      and "\<not> advertises (storefrontTools (this s)) toolName"
  shows "callTool ev toolName toolArgs s =
           (Inl (JsError (''Tool '' @ toolName @ '' not found'') None), s)
         \<and> new_effects s (snd (callTool ev toolName toolArgs s)) = []
         \<and> tick (snd (callTool ev toolName toolArgs s)) = tick s"
  using assms by (simp add: callTool_def not_found_def new_effects_def)

theorem unknown_tool_not_found_witness:
  "\<not> advertises (customerTools (this shop_state)) ''get_weather''
   \<and> \<not> advertises (storefrontTools (this shop_state)) ''get_weather''
   \<and> callTool env_healthy ''get_weather'' JNull shop_state =
       (Inl (JsError ''Tool get_weather not found'' None), shop_state)"
proof -
  have a: "\<not> advertises (customerTools (this shop_state)) ''get_weather''"
    by (simp add: advertises_def demo_defs)
  have b: "\<not> advertises (storefrontTools (this shop_state)) ''get_weather''"
    by (simp add: advertises_def demo_defs)
  show ?thesis
    using a b unknown_tool_not_found [OF a b, of env_healthy JNull] by simp
qed

section \<open>The backend client\<close>

lemma slice_0_ascii:
  "\<forall>c \<in> set s. (of_char c :: nat) < 128 \<Longrightarrow> slice_0 n s = take n s"
  by (induction n s rule: slice_0.induct) (auto simp: utf8_width_def Let_def)

lemma high_surrogate_units: "code_units (high_surrogate c cs) \<le> 1"
proof (cases "\<exists>b1 b2 b3. map of_char cs = [b1 :: nat, b2, b3]")
  case True
  then obtain b1 b2 b3 where m: "map of_char cs = [b1 :: nat, b2, b3]" by auto
  define cp where "cp = (of_char c mod 8) * 262144 + (b1 mod 64) * 4096 + (b2 mod 64) * 64
                      + (b3 mod 64 :: nat)"
  define hs where "hs = 55296 + (cp - 65536) div 1024"
  have "(of_char c :: nat) mod 8 < 8" "b1 mod 64 < 64" "b2 mod 64 < 64" "b3 mod 64 < 64"
    by simp_all
  hence "cp < 2097152" unfolding cp_def by linarith
  hence "hs < 57344 \<and> 55296 \<le> hs" unfolding hs_def by simp
  hence lead: "hs div 4096 = 13" by arith
  have "224 + hs div 4096 = 237" using lead by simp
  hence w: "utf8_width (char_of (224 + hs div 4096)) = 3"
    by (simp add: utf8_width_def)
  have "high_surrogate c cs =
          [char_of (224 + hs div 4096), char_of (128 + hs div 64 mod 64), char_of (128 + hs mod 64)]"
    unfolding high_surrogate_def m hs_def cp_def by (simp add: Let_def)
  then show ?thesis using w by simp
next
  case False
  then have "high_surrogate c cs = []"
    unfolding high_surrogate_def by (auto split: list.splits)
  then show ?thesis by simp
qed

lemma slice_0_units: "code_units (slice_0 n s) \<le> n"
proof (induction n s rule: slice_0.induct)
  case (3 n c cs)
  let ?w = "utf8_width c"
  show ?case
  proof (cases "?w < 4")
    case True
    have "drop (?w - 1) (take (?w - 1) cs @ slice_0 n (drop (?w - 1) cs)) = slice_0 n (drop (?w - 1) cs)"
      by (cases "?w - 1 \<le> length cs") simp_all
    with 3(1) [OF refl True] True show ?thesis by (simp add: Let_def)
  next
    case False
    note wide = False
    show ?thesis
    proof (cases "n = 0")
      case True
      with wide high_surrogate_units [of c "take 3 cs"] show ?thesis by (simp add: Let_def)
    next
      case False
      have w: "?w = 4" using wide by (simp add: utf8_width_def Let_def split: if_splits)
      have "drop 3 (take 3 cs @ slice_0 (n - 1) (drop 3 cs)) = slice_0 (n - 1) (drop 3 cs)"
        by (cases "3 \<le> length cs") simp_all
      with 3(2) [OF refl wide False] wide False w show ?thesis by (simp add: Let_def)
    qed
  qed
qed simp_all

lemma slice_0_short: "code_units s \<le> n \<Longrightarrow> slice_0 n s = s"
proof (induction n s rule: slice_0.induct)
  case (3 n c cs)
  let ?w = "utf8_width c"
  show ?case
  proof (cases "?w < 4")
    case True
    with 3(3) have "code_units (drop (?w - 1) cs) \<le> n" by simp
    with 3(1) [OF refl True] True show ?thesis by (simp add: Let_def)
  next
    case False
    have w: "?w = 4" using False by (simp add: utf8_width_def Let_def split: if_splits)
    from 3(3) False w have n: "n \<noteq> 0" and rest: "code_units (drop 3 cs) \<le> n - 1" by simp_all
    with 3(2) [OF refl False n] False show ?thesis by (simp add: Let_def)
  qed
qed (simp_all split: if_splits)

text \<open>
  C5, as amended. When the server answers with a status outside 200-299, the request
  throws an error whose \<^verbatim>\<open>status\<close> is that status and whose message is made of the
  status, the status text and the first 200 code units of the body: a slice of at most
  200 code units, which is the whole body when the body has no more. When it answers with
  a 2xx status and a body that is not JSON, the request throws the parser's error, which
  has no \<^verbatim>\<open>status\<close> and so cannot be taken for the former. In neither case is a decoded
  value returned.
\<close>

theorem rpc_failure_classes:
  assumes answered: "fetch ev (tick s) (jsonRpcRequest ev ep m p h (tick s)) = Inr res"
  shows "(\<not> ok res \<longrightarrow>
            fst (makeJsonRpcRequest ev ep m p h s) =
              Inl (JsError (''Request failed: '' @ dec (http_status res) @ '' '' @ statusText res
                              @ '' '' @ separator @ '' '' @ slice_0 200 (body res))
                           (Some (http_status res)))
            \<and> code_units (slice_0 200 (body res)) \<le> 200
            \<and> (code_units (body res) \<le> 200 \<longrightarrow> slice_0 200 (body res) = body res))
       \<and> (ok res \<longrightarrow> (\<forall>msg. JSON_parse ev (body res) = Inl msg \<longrightarrow>
            fst (makeJsonRpcRequest ev ep m p h s) = Inl (JsError msg None)))
       \<and> (\<forall>v. fst (makeJsonRpcRequest ev ep m p h s) = Inr v \<longrightarrow>
            ok res \<and> JSON_parse ev (body res) = Inr v)"
  using answered slice_0_units [of 200 "body res"] slice_0_short [of "body res" 200]
  by (auto simp: makeJsonRpcRequest_eq Let_def request_failed_def split: sum.splits)

text \<open>
  The claim as stated fails on the response body: of a body of 201 characters ending in
  \<^verbatim>\<open>#\<close>, the error carries the first 200 only.
\<close>

lemma dec_500: "dec 500 = ''500''"
  by code_simp

lemma slice_long_failure: "slice_0 200 (body long_failure) = replicate 200 (CHR ''x'')"
  by (subst slice_0_ascii) (simp_all add: long_failure_def answer_def)

lemma slice_accented_failure:
  "slice_0 200 (body accented_failure) = concat (replicate 200 [CHR 0xC3, CHR 0xA9])"
  unfolding accented_failure_def answer_def by code_simp

lemma char_of_237: "char_of (237 :: nat) = CHR 0xED"
  by code_simp

lemma char_of_160: "char_of (160 :: nat) = CHR 0xA0"
  by code_simp

lemma char_of_189: "char_of (189 :: nat) = CHR 0xBD"
  by code_simp

lemma high_surrogate_1F600:
  "high_surrogate (CHR 0xF0) [CHR 0x9F, CHR 0x98, CHR 0x80] = [CHR 0xED, CHR 0xA0, CHR 0xBD]"
  by (simp add: high_surrogate_def Let_def char_of_237 char_of_160 char_of_189)

lemma slice_0_ascii_prefix:
  "\<forall>c \<in> set xs. (of_char c :: nat) < 128 \<Longrightarrow>
     slice_0 (length xs + n) (xs @ ys) = xs @ slice_0 n ys"
  by (induction xs) (auto simp: utf8_width_def Let_def)

lemma slice_astral_failure:
  "slice_0 200 (body astral_failure) = replicate 199 (CHR ''x'') @ [CHR 0xED, CHR 0xA0, CHR 0xBD]"
  unfolding astral_failure_def answer_def
  using slice_0_ascii_prefix [of "replicate 199 (CHR ''x'')" 1 "[CHR 0xF0, CHR 0x9F, CHR 0x98, CHR 0x80]"]
  by (simp add: utf8_width_def high_surrogate_1F600)

lemma hash_not_in_message: "CHR ''#'' \<notin> set (message (request_failed long_failure))"
  unfolding request_failed_def slice_long_failure
  by (simp add: long_failure_def answer_def dec_500 separator_def)

theorem http_error_truncates_body_counterexample:
  "fst (makeJsonRpcRequest env_long_failure storefront_url ''tools/call'' (JObj []) json_headers shop_state)
     = Inl (request_failed long_failure)
   \<and> status (request_failed long_failure) = Some 500
   \<and> length (body long_failure) = 201
   \<and> CHR ''#'' \<in> set (body long_failure)
   \<and> CHR ''#'' \<notin> set (message (request_failed long_failure))"
  using hash_not_in_message
  by (simp add: makeJsonRpcRequest_eq env_long_failure_def demo_env_def Let_def ok_def)
     (simp add: long_failure_def answer_def)

theorem rpc_failure_classes_witness:
  "\<not> ok long_failure
   \<and> fst (makeJsonRpcRequest env_long_failure storefront_url ''tools/call'' (JObj []) json_headers
            shop_state) =
       Inl (JsError (''Request failed: 500 Internal Server Error '' @ separator @ '' ''
                       @ replicate 200 (CHR ''x'')) (Some 500))
   \<and> \<not> ok accented_failure
   \<and> body accented_failure = concat (replicate 201 [CHR 0xC3, CHR 0xA9])
   \<and> fst (makeJsonRpcRequest env_accented_failure storefront_url ''tools/call'' (JObj [])
            json_headers shop_state) =
       Inl (JsError (''Request failed: 500 Internal Server Error '' @ separator @ '' ''
                       @ concat (replicate 200 [CHR 0xC3, CHR 0xA9])) (Some 500))
   \<and> \<not> ok astral_failure
   \<and> body astral_failure = replicate 199 (CHR ''x'') @ [CHR 0xF0, CHR 0x9F, CHR 0x98, CHR 0x80]
   \<and> fst (makeJsonRpcRequest env_astral_failure storefront_url ''tools/call'' (JObj [])
            json_headers shop_state) =
       Inl (JsError (''Request failed: 500 Internal Server Error '' @ separator @ '' ''
                       @ replicate 199 (CHR ''x'') @ [CHR 0xED, CHR 0xA0, CHR 0xBD]) (Some 500))
   \<and> ok login_page
   \<and> fst (makeJsonRpcRequest env_login_page storefront_url ''tools/call'' (JObj []) json_headers
            shop_state) = Inl (JsError ''Unexpected token'' None)"
proof -
  have f1: "fetch env_long_failure (tick shop_state)
              (jsonRpcRequest env_long_failure storefront_url ''tools/call'' (JObj []) json_headers
                 (tick shop_state)) = Inr long_failure"
    by (simp add: env_long_failure_def demo_env_def)
  have f2: "fetch env_login_page (tick shop_state)
              (jsonRpcRequest env_login_page storefront_url ''tools/call'' (JObj []) json_headers
                 (tick shop_state)) = Inr login_page"
    by (simp add: env_login_page_def demo_env_def)
  have f3: "fetch env_accented_failure (tick shop_state)
              (jsonRpcRequest env_accented_failure storefront_url ''tools/call'' (JObj [])
                 json_headers (tick shop_state)) = Inr accented_failure"
    by (simp add: env_accented_failure_def demo_env_def)
  have f4: "fetch env_astral_failure (tick shop_state)
              (jsonRpcRequest env_astral_failure storefront_url ''tools/call'' (JObj [])
                 json_headers (tick shop_state)) = Inr astral_failure"
    by (simp add: env_astral_failure_def demo_env_def)
  have k4: "\<not> ok astral_failure"
    by (simp add: ok_def astral_failure_def answer_def)
  have b4: "body astral_failure = replicate 199 (CHR ''x'') @ [CHR 0xF0, CHR 0x9F, CHR 0x98, CHR 0x80]"
    by (simp add: astral_failure_def answer_def)
  from rpc_failure_classes [OF f4, THEN conjunct1, rule_format, OF k4, THEN conjunct1]
  have r4: "fst (makeJsonRpcRequest env_astral_failure storefront_url ''tools/call'' (JObj [])
                   json_headers shop_state) =
       Inl (JsError (''Request failed: 500 Internal Server Error '' @ separator @ '' ''
                       @ replicate 199 (CHR ''x'') @ [CHR 0xED, CHR 0xA0, CHR 0xBD]) (Some 500))"
    unfolding slice_astral_failure by (simp add: dec_500 astral_failure_def answer_def)
  have k1: "\<not> ok long_failure"
    by (simp add: ok_def demo_defs)
  have k2: "ok login_page"
    by (simp add: ok_def demo_defs)
  have k3: "\<not> ok accented_failure"
    by (simp add: ok_def accented_failure_def answer_def)
  have b3: "body accented_failure = concat (replicate 201 [CHR 0xC3, CHR 0xA9])"
    by (simp add: accented_failure_def answer_def)
  have p: "JSON_parse env_login_page (body login_page) = Inl ''Unexpected token''"
    by (simp add: env_login_page_def demo_defs)
  from rpc_failure_classes [OF f1, THEN conjunct1, rule_format, OF k1, THEN conjunct1]
  have r1: "fst (makeJsonRpcRequest env_long_failure storefront_url ''tools/call'' (JObj [])
                   json_headers shop_state) =
       Inl (JsError (''Request failed: 500 Internal Server Error '' @ separator @ '' ''
                       @ replicate 200 (CHR ''x'')) (Some 500))"
    unfolding slice_long_failure by (simp add: dec_500 demo_defs)
  from rpc_failure_classes [OF f3, THEN conjunct1, rule_format, OF k3, THEN conjunct1]
  have r3: "fst (makeJsonRpcRequest env_accented_failure storefront_url ''tools/call'' (JObj [])
                   json_headers shop_state) =
       Inl (JsError (''Request failed: 500 Internal Server Error '' @ separator @ '' ''
                       @ concat (replicate 200 [CHR 0xC3, CHR 0xA9])) (Some 500))"
    unfolding slice_accented_failure by (simp add: dec_500 accented_failure_def answer_def)
  have r2: "fst (makeJsonRpcRequest env_login_page storefront_url ''tools/call'' (JObj [])
                   json_headers shop_state) = Inl (JsError ''Unexpected token'' None)"
    by (rule rpc_failure_classes [OF f2, THEN conjunct2, THEN conjunct1, rule_format, OF k2 p])
  from k1 k2 k3 k4 b3 b4 r1 r2 r3 r4 show ?thesis by simp
qed

section \<open>Credentials\<close>

lemma console_only_filters:
  assumes "set cs \<subseteq> {Console l m}"
  shows "filter is_TokenLookup cs = []" "filter is_NetCall cs = []"
    "filter is_AuthUrlRequest cs = []"
  using assms by (auto simp: filter_empty_conv)

lemma cached_token_no_lookup:
  assumes run: "callCustomerTool ev n a s = (r, s')"
      and cached: "customerAccessToken (this s) \<noteq> []"
  shows "filter is_TokenLookup (new_effects s s') = []
       \<and> customerAccessToken (this s') = customerAccessToken (this s)
       \<and> (\<forall>req out. NetCall req out \<in> set (new_effects s s') \<longrightarrow>
             headers req = auth_headers (customerAccessToken (this s)))"
  using run
proof (cases rule: callCustomerTool_run)
  case (threw e)
  with cached show ?thesis by simp
next
  case (requested lk tok t1 rq out gout cs1 cs2 cs3)
  with cached show ?thesis
    by (auto simp: jsonRpcRequest_def console_only_filters split: if_splits)
qed

lemma looked_up_once:
  assumes run: "callCustomerTool ev n a s = (r, s')"
      and empty: "customerAccessToken (this s) = []"
  shows "filter is_TokenLookup (new_effects s s') =
           [TokenLookup (conversationId (this s))
              (getCustomerToken ev (tick s) (conversationId (this s)))]"
  using run
proof (cases rule: callCustomerTool_run)
  case (threw e)
  with empty show ?thesis by simp
next
  case (requested lk tok t1 rq out gout cs1 cs2 cs3)
  with empty show ?thesis
    by (auto simp: console_only_filters split: if_splits)
qed

lemma found_token_cached:
  assumes run: "callCustomerTool ev n a s = (r, s')"
      and empty: "customerAccessToken (this s) = []"
      and found: "getCustomerToken ev (tick s) (conversationId (this s)) = Inr (Some t)"
  shows "customerAccessToken (this s') = accessToken t
       \<and> (\<exists>req out. filter is_NetCall (new_effects s s') = [NetCall req out]
             \<and> headers req = auth_headers (accessToken t))"
  using run
proof (cases rule: callCustomerTool_run)
  case (threw e)
  with found show ?thesis by simp
next
  case (requested lk tok t1 rq out gout cs1 cs2 cs3)
  with empty found show ?thesis
    by (auto simp: console_only_filters jsonRpcRequest_def split: if_splits)
qed

lemma no_token_unauthenticated:
  assumes run: "callCustomerTool ev n a s = (r, s')"
      and empty: "customerAccessToken (this s) = []"
      and none: "getCustomerToken ev (tick s) (conversationId (this s)) = Inr d"
                "(case d of None \<Rightarrow> True | Some t \<Rightarrow> accessToken t = [])"
  shows "customerAccessToken (this s') = []
       \<and> (\<exists>req out. filter is_NetCall (new_effects s s') = [NetCall req out]
             \<and> headers req = json_headers
             \<and> endpoint req = customerMcpEndpoint (this s)
             \<and> (\<forall>res url. out = Inr res \<and> http_status res = 401
                    \<and> generateAuthUrl ev (Suc (Suc (tick s))) (conversationId (this s))
                          (shopId (this s)) = Inr url
                  \<longrightarrow> r = Inr (auth_required_result url)))"
  using run
proof (cases rule: callCustomerTool_run)
  case (threw e)
  with none show ?thesis by simp
next
  case (requested lk tok t1 rq out gout cs1 cs2 cs3)
  with empty none show ?thesis
    by (auto simp: console_only_filters jsonRpcRequest_def auth_headers_def exchange_401
          request_value_def split: if_splits option.splits)
qed

lemma connect_caches_token:
  assumes "connectToCustomerServer ev s = (r, s')"
      and "conversationId (this s) \<noteq> []"
      and "getCustomerToken ev (tick s) (conversationId (this s)) = Inr (Some t)"
      and "accessToken t \<noteq> []"
  shows "customerAccessToken (this s') = accessToken t"
  using assms
  unfolding connectToCustomerServer_def connectToCustomerServer_try_def makeJsonRpcRequest_eq
  by (auto simp: Let_def emit_def external_def split: sum.splits prod.splits if_splits option.splits)

text \<open>
  C8. A customer tool call on an instance that holds a token looks nothing up and sends
  that token. On an instance that holds none it looks the token up once, by the
  conversation id; a token found is stored in the instance and sent, and any later
  customer tool call on the resulting instance looks nothing up; when none is found (no
  row, or a row with an empty token) the instance still holds none and the one request
  made goes to the customer endpoint without an \<^verbatim>\<open>Authorization\<close> header, so that a 401
  answer to it is recovered into the \<^verbatim>\<open>auth_required\<close> result. A token found while
  connecting to the customer server is stored in the instance as well: a tool call made
  on the instance that such a connect call leaves looks nothing up.
\<close>

theorem credential_resolution_lazy_memoized:
  assumes run: "callCustomerTool ev toolName toolArgs s = (r, s')"
  shows "(customerAccessToken (this s) \<noteq> [] \<longrightarrow>
            filter is_TokenLookup (new_effects s s') = []
            \<and> customerAccessToken (this s') = customerAccessToken (this s)
            \<and> (\<forall>req out. NetCall req out \<in> set (new_effects s s') \<longrightarrow>
                  headers req = json_headers @
                    [(''Authorization'', ''Bearer '' @ customerAccessToken (this s))]))
       \<and> (customerAccessToken (this s) = [] \<longrightarrow>
            filter is_TokenLookup (new_effects s s') =
              [TokenLookup (conversationId (this s))
                 (getCustomerToken ev (tick s) (conversationId (this s)))])
       \<and> (\<forall>t. customerAccessToken (this s) = []
              \<and> getCustomerToken ev (tick s) (conversationId (this s)) = Inr (Some t)
              \<and> accessToken t \<noteq> [] \<longrightarrow>
            customerAccessToken (this s') = accessToken t
            \<and> (\<exists>req out. filter is_NetCall (new_effects s s') = [NetCall req out]
                  \<and> headers req = json_headers @ [(''Authorization'', ''Bearer '' @ accessToken t)])
            \<and> (\<forall>n2 a2. filter is_TokenLookup
                  (new_effects s' (snd (callCustomerTool ev n2 a2 s'))) = []))
       \<and> (\<forall>d. customerAccessToken (this s) = []
              \<and> getCustomerToken ev (tick s) (conversationId (this s)) = Inr d
              \<and> (case d of None \<Rightarrow> True | Some t \<Rightarrow> accessToken t = []) \<longrightarrow>
            customerAccessToken (this s') = []
            \<and> (\<exists>req out. filter is_NetCall (new_effects s s') = [NetCall req out]
                  \<and> headers req = json_headers
                  \<and> endpoint req = customerMcpEndpoint (this s)
                  \<and> (\<forall>res url. out = Inr res \<and> http_status res = 401
                         \<and> generateAuthUrl ev (Suc (Suc (tick s))) (conversationId (this s))
                               (shopId (this s)) = Inr url
                       \<longrightarrow> r = Inr (auth_required_result url))))
       \<and> (\<forall>s0 r0 t. connectToCustomerServer ev s0 = (r0, s)
              \<and> conversationId (this s0) \<noteq> []
              \<and> getCustomerToken ev (tick s0) (conversationId (this s0)) = Inr (Some t)
              \<and> accessToken t \<noteq> [] \<longrightarrow>
            customerAccessToken (this s) = accessToken t
            \<and> filter is_TokenLookup (new_effects s s') = [])"
proof (intro conjI impI allI)
  assume cached: "customerAccessToken (this s) \<noteq> []"
  from cached_token_no_lookup [OF run cached] cached
  show "filter is_TokenLookup (new_effects s s') = []"
    and "customerAccessToken (this s') = customerAccessToken (this s)"
    and "\<And>req out. NetCall req out \<in> set (new_effects s s') \<Longrightarrow>
                  headers req = json_headers @
                    [(''Authorization'', ''Bearer '' @ customerAccessToken (this s))]"
    by (auto simp: auth_headers_def)
next
  assume "customerAccessToken (this s) = []"
  then show "filter is_TokenLookup (new_effects s s') =
              [TokenLookup (conversationId (this s))
                 (getCustomerToken ev (tick s) (conversationId (this s)))]"
    by (rule looked_up_once [OF run])
next
  fix t
  assume h: "customerAccessToken (this s) = []
              \<and> getCustomerToken ev (tick s) (conversationId (this s)) = Inr (Some t)
              \<and> accessToken t \<noteq> []"
  from found_token_cached [OF run] h
  have c: "customerAccessToken (this s') = accessToken t"
    and q: "\<exists>req out. filter is_NetCall (new_effects s s') = [NetCall req out]
             \<and> headers req = auth_headers (accessToken t)"
    by blast+
  show "customerAccessToken (this s') = accessToken t" by (rule c)
  from q h show "\<exists>req out. filter is_NetCall (new_effects s s') = [NetCall req out]
                  \<and> headers req = json_headers @ [(''Authorization'', ''Bearer '' @ accessToken t)]"
    by (simp add: auth_headers_def)
  fix n2 a2
  have "callCustomerTool ev n2 a2 s' =
          (fst (callCustomerTool ev n2 a2 s'), snd (callCustomerTool ev n2 a2 s'))"
    by simp
  from cached_token_no_lookup [OF this] c h
  show "filter is_TokenLookup (new_effects s' (snd (callCustomerTool ev n2 a2 s'))) = []"
    by simp
next
  fix d
  assume h: "customerAccessToken (this s) = []
              \<and> getCustomerToken ev (tick s) (conversationId (this s)) = Inr d
              \<and> (case d of None \<Rightarrow> True | Some t \<Rightarrow> accessToken t = [])"
  from no_token_unauthenticated [OF run, of d] h
  show "customerAccessToken (this s') = []"
    and "\<exists>req out. filter is_NetCall (new_effects s s') = [NetCall req out]
                  \<and> headers req = json_headers
                  \<and> endpoint req = customerMcpEndpoint (this s)
                  \<and> (\<forall>res url. out = Inr res \<and> http_status res = 401
                         \<and> generateAuthUrl ev (Suc (Suc (tick s))) (conversationId (this s))
                               (shopId (this s)) = Inr url
                       \<longrightarrow> r = Inr (auth_required_result url))"
    by blast+
next
  fix s0 r0 t
  assume h: "connectToCustomerServer ev s0 = (r0, s)
              \<and> conversationId (this s0) \<noteq> []
              \<and> getCustomerToken ev (tick s0) (conversationId (this s0)) = Inr (Some t)
              \<and> accessToken t \<noteq> []"
  from connect_caches_token [of ev s0 r0 s t] h
  show c: "customerAccessToken (this s) = accessToken t" by simp
  with h have "customerAccessToken (this s) \<noteq> []" by simp
  from cached_token_no_lookup [OF run this]
  show "filter is_TokenLookup (new_effects s s') = []" by simp
qed

theorem credential_resolution_lazy_memoized_witness:
  "customerAccessToken (this signed_in_state) \<noteq> []
   \<and> filter is_TokenLookup (new_effects signed_in_state
        (snd (callCustomerTool env_healthy ''get_orders'' (JObj []) signed_in_state))) = []
   \<and> customerAccessToken (this shop_state) = []
   \<and> getCustomerToken env_stale_token (tick shop_state) (conversationId (this shop_state))
        = Inr (Some \<lparr>accessToken = ''tok-1''\<rparr>)
   \<and> customerAccessToken (this (snd (callCustomerTool env_stale_token ''get_orders'' (JObj [])
        shop_state))) = ''tok-1''
   \<and> getCustomerToken env_401 (tick shop_state) (conversationId (this shop_state)) = Inr None
   \<and> customerAccessToken (this (snd (callCustomerTool env_401 ''get_orders'' (JObj [])
        shop_state))) = []
   \<and> filter is_TokenLookup (new_effects shop_state
        (snd (callCustomerTool env_401 ''get_orders'' (JObj []) shop_state)))
        = [TokenLookup ''c1'' (Inr None)]"
proof -
  have run1: "callCustomerTool env_healthy ''get_orders'' (JObj []) signed_in_state =
     (fst (callCustomerTool env_healthy ''get_orders'' (JObj []) signed_in_state),
      snd (callCustomerTool env_healthy ''get_orders'' (JObj []) signed_in_state))"
    by simp
  have run2: "callCustomerTool env_stale_token ''get_orders'' (JObj []) shop_state =
     (fst (callCustomerTool env_stale_token ''get_orders'' (JObj []) shop_state),
      snd (callCustomerTool env_stale_token ''get_orders'' (JObj []) shop_state))"
    by simp
  have run3: "callCustomerTool env_401 ''get_orders'' (JObj []) shop_state =
     (fst (callCustomerTool env_401 ''get_orders'' (JObj []) shop_state),
      snd (callCustomerTool env_401 ''get_orders'' (JObj []) shop_state))"
    by simp
  have h1: "customerAccessToken (this signed_in_state) \<noteq> []"
    by (simp add: demo_defs)
  have h2: "customerAccessToken (this shop_state) = []"
    by (simp add: demo_defs)
  have h3: "getCustomerToken env_stale_token (tick shop_state) (conversationId (this shop_state))
        = Inr (Some \<lparr>accessToken = ''tok-1''\<rparr>)"
    by (simp add: env_stale_token_def demo_defs)
  have h4: "getCustomerToken env_401 (tick shop_state) (conversationId (this shop_state)) = Inr None"
    by (simp add: env_401_def demo_defs)
  have h5: "conversationId (this shop_state) = ''c1''"
    by (simp add: demo_defs)
  from credential_resolution_lazy_memoized [OF run1] h1
  have a: "filter is_TokenLookup (new_effects signed_in_state
        (snd (callCustomerTool env_healthy ''get_orders'' (JObj []) signed_in_state))) = []"
    by blast
  from credential_resolution_lazy_memoized [OF run2] h2 h3
  have b: "customerAccessToken (this (snd (callCustomerTool env_stale_token ''get_orders'' (JObj [])
        shop_state))) = ''tok-1''"
    by simp
  from credential_resolution_lazy_memoized [OF run3] h2 h4 h5
  have c: "customerAccessToken (this (snd (callCustomerTool env_401 ''get_orders'' (JObj [])
        shop_state))) = []"
    and d: "filter is_TokenLookup (new_effects shop_state
        (snd (callCustomerTool env_401 ''get_orders'' (JObj []) shop_state)))
        = [TokenLookup ''c1'' (Inr None)]"
    by simp_all
  from h1 h2 h3 h4 a b c d show ?thesis by blast
qed

section \<open>Catalogs\<close>

lemma connectToStorefrontServer_eq:
  "connectToStorefrontServer ev s =
     (let req = jsonRpcRequest ev (storefrontMcpEndpoint (this s)) ''tools/list'' (JObj [])
                  json_headers (tick s);
          out = fetch ev (tick s) req;
          l = listing ev out
      in (l, s\<lparr>this := (case l of
                          Inr ts \<Rightarrow> (this s)\<lparr>storefrontTools := ts, tools := tools (this s) @ ts\<rparr>
                        | Inl e \<Rightarrow> this s),
               tick := Suc (tick s),
               trace := trace s @
                 Console Log (''Connecting to MCP server at '' @ storefrontMcpEndpoint (this s)) #
                 NetCall req out # parse_console ev out @
                 (if isl l then [Console Err ''Failed to connect to MCP server: ''] else [])\<rparr>))"
  unfolding connectToStorefrontServer_def connectToStorefrontServer_try_def makeJsonRpcRequest_eq
    listing_def
  by (auto simp: Let_def emit_def split: sum.splits)

lemma connect_catalog_from_response:
  assumes "connect ev b s = (Inr ts, s')"
  shows "\<exists>req res v. NetCall req (Inr res) \<in> set (new_effects s s')
           \<and> rpc_method req = ''tools/list''
           \<and> endpoint req = (case b of CustomerBackend \<Rightarrow> customerMcpEndpoint (this s)
                                | StorefrontBackend \<Rightarrow> storefrontMcpEndpoint (this s))
           \<and> JSON_parse ev (body res) = Inr v
           \<and> formatToolsData (toolsData_of v) = Inr ts"
proof (cases b)
  case StorefrontBackend
  with assms show ?thesis
    unfolding connect_def connectToStorefrontServer_eq listing_def new_effects_def
    by (auto simp: Let_def jsonRpcRequest_def split: sum.splits if_splits)
next
  case CustomerBackend
  with assms show ?thesis
    unfolding connect_def connectToCustomerServer_def connectToCustomerServer_try_def
      makeJsonRpcRequest_eq new_effects_def
    by (auto simp: Let_def emit_def external_def jsonRpcRequest_def
        split: sum.splits prod.splits if_splits option.splits)
qed

lemma connectToStorefrontServer_fields:
  assumes "connectToStorefrontServer ev s = (r, s')"
  shows "customerTools (this s') = customerTools (this s)
       \<and> (case r of
             Inr ts \<Rightarrow> tools (this s') = tools (this s) @ ts \<and> storefrontTools (this s') = ts
           | Inl e \<Rightarrow> tools (this s') = tools (this s)
                      \<and> storefrontTools (this s') = storefrontTools (this s))"
  using assms unfolding connectToStorefrontServer_eq
  by (auto simp: Let_def split: sum.splits)

lemma connectToCustomerServer_fields:
  assumes "connectToCustomerServer ev s = (r, s')"
  shows "storefrontTools (this s') = storefrontTools (this s)
       \<and> (case r of
             Inr ts \<Rightarrow> tools (this s') = tools (this s) @ ts \<and> customerTools (this s') = ts
           | Inl e \<Rightarrow> tools (this s') = tools (this s)
                      \<and> customerTools (this s') = customerTools (this s))"
  using assms
  unfolding connectToCustomerServer_def connectToCustomerServer_try_def makeJsonRpcRequest_eq
  by (auto simp: Let_def emit_def external_def split: sum.splits prod.splits if_splits option.splits)

lemma connect_trace_grows:
  assumes "connect ev b s = (r, s')"
  shows "\<exists>d. trace s' = trace s @ d"
proof (cases b)
  case StorefrontBackend
  with assms show ?thesis
    unfolding connect_def connectToStorefrontServer_eq by (auto simp: Let_def)
next
  case CustomerBackend
  with assms show ?thesis
    unfolding connect_def connectToCustomerServer_def connectToCustomerServer_try_def
      makeJsonRpcRequest_eq
    by (auto simp: Let_def emit_def external_def
        split: sum.splits prod.splits if_splits option.splits)
qed

lemma connect_ok:
  assumes "connect ev b s = (Inr ts, s')"
  shows "tools (this s') = tools (this s) @ ts"
    and "customerTools (this s') = (if b = CustomerBackend then ts else customerTools (this s))"
    and "storefrontTools (this s') = (if b = StorefrontBackend then ts else storefrontTools (this s))"
  using assms connectToStorefrontServer_fields [of ev s "Inr ts" s']
    connectToCustomerServer_fields [of ev s "Inr ts" s']
  by (cases b; simp add: connect_def)+

lemma connect_failed:
  assumes "connect ev b s = (Inl e, s')"
  shows "tools (this s') = tools (this s)"
    and "customerTools (this s') = customerTools (this s)"
    and "storefrontTools (this s') = storefrontTools (this s)"
  using assms connectToStorefrontServer_fields [of ev s "Inl e" s']
    connectToCustomerServer_fields [of ev s "Inl e" s']
  by (cases b; simp add: connect_def)+

lemma map_throw_Inr:
  "map_throw f xs = Inr ys \<Longrightarrow> list_all2 (\<lambda>x y. f x = Inr y) xs ys"
proof (induction xs arbitrary: ys)
  case Nil
  then show ?case by simp
next
  case (Cons x xs)
  then show ?case by (auto split: sum.splits)
qed

lemma formatTool_Inr:
  "formatTool t = Inr d \<Longrightarrow>
     name d = member t ''name'' \<and> description d = member t ''description''
     \<and> input_schema d = (if truthy (member t ''inputSchema'') then member t ''inputSchema''
                          else member t ''input_schema'')"
  by (auto simp: formatTool_def split: if_splits)

lemma formatToolsData_preserves:
  assumes "formatToolsData (JArr raw) = Inr ds"
  shows "length ds = length raw
       \<and> map name ds = map (\<lambda>t. member t ''name'') raw
       \<and> map description ds = map (\<lambda>t. member t ''description'') raw
       \<and> map input_schema ds =
           map (\<lambda>t. if truthy (member t ''inputSchema'') then member t ''inputSchema''
                     else member t ''input_schema'') raw"
proof -
  from assms have "map_throw formatTool raw = Inr ds"
    by (simp add: formatToolsData_def)
  then have "list_all2 (\<lambda>t d. formatTool t = Inr d) raw ds"
    by (rule map_throw_Inr)
  then show ?thesis
    by (induction rule: list_all2_induct) (auto dest: formatTool_Inr)
qed

lemma formatToolsData_array:
  "formatToolsData v = Inr ds \<Longrightarrow> \<exists>raw. v = JArr raw"
  by (cases v) (simp_all add: formatToolsData_def)

lemma connect_sequence_tools:
  "connect_sequence ev bs s = (rs, s') \<Longrightarrow>
     tools (this s') = tools (this s) @ concat (returned rs) \<and> map fst rs = bs"
proof (induction bs arbitrary: s rs s')
  case Nil
  then show ?case by simp
next
  case (Cons b bs)
  obtain r s1 where c: "connect ev b s = (r, s1)" by (cases "connect ev b s")
  obtain rs1 s2 where q: "connect_sequence ev bs s1 = (rs1, s2)"
    by (cases "connect_sequence ev bs s1")
  from Cons.prems c q have rs: "rs = (b, r) # rs1" and s': "s' = s2" by simp_all
  from Cons.IH [OF q] have ih: "tools (this s2) = tools (this s1) @ concat (returned rs1)"
    "map fst rs1 = bs" by simp_all
  show ?case
  proof (cases r)
    case (Inl e)
    with c connect_failed(1) [of ev b s e s1] ih rs s' show ?thesis by simp
  next
    case (Inr ts)
    with c connect_ok(1) [of ev b s ts s1] ih rs s' show ?thesis by simp
  qed
qed

lemma connect_sequence_fields:
  "connect_sequence ev bs s = (rs, s') \<Longrightarrow>
     customerTools (this s') =
       (if returned_by CustomerBackend rs = [] then customerTools (this s)
        else last (returned_by CustomerBackend rs))
     \<and> storefrontTools (this s') =
       (if returned_by StorefrontBackend rs = [] then storefrontTools (this s)
        else last (returned_by StorefrontBackend rs))"
proof (induction bs arbitrary: s rs s')
  case Nil
  then show ?case by (simp add: returned_by_def)
next
  case (Cons b bs)
  obtain r s1 where c: "connect ev b s = (r, s1)" by (cases "connect ev b s")
  obtain rs1 s2 where q: "connect_sequence ev bs s1 = (rs1, s2)"
    by (cases "connect_sequence ev bs s1")
  from Cons.prems c q have rs: "rs = (b, r) # rs1" and s': "s' = s2" by simp_all
  note ih = Cons.IH [OF q]
  show ?case
  proof (cases r)
    case (Inl e)
    with c connect_failed [of ev b s e s1] ih rs s' show ?thesis
      by (simp add: returned_by_def)
  next
    case (Inr ts)
    with c connect_ok [of ev b s ts s1] ih rs s' show ?thesis
      by (cases b) (simp_all add: returned_by_def)
  qed
qed

lemma MCPClient_new_empty:
  "MCPClient_new ev host cid sid ep = Inr c \<Longrightarrow>
     tools c = [] \<and> customerTools c = [] \<and> storefrontTools c = [] \<and> customerAccessToken c = []"
  by (auto simp: MCPClient_new_def Let_def split: sum.splits if_splits)

lemma returned_split:
  "length (concat (returned rs)) =
     length (concat (returned_by CustomerBackend rs))
     + length (concat (returned_by StorefrontBackend rs))"
proof (induction rs)
  case Nil
  then show ?case by (simp add: returned_by_def)
next
  case (Cons x rs)
  obtain b r where x: "x = (b, r)" by (cases x)
  with Cons show ?case
    by (cases b; cases r) (simp_all add: returned_by_def)
qed

lemma returned_by_absent:
  "b \<notin> fst ` set rs \<Longrightarrow> returned_by b rs = []"
  by (induction rs) (auto simp: returned_by_def)

lemma returned_by_distinct:
  "distinct (map fst rs) \<Longrightarrow> returned_by b rs = [] \<or> (\<exists>ts. returned_by b rs = [ts])"
proof (induction rs)
  case Nil
  then show ?case by (simp add: returned_by_def)
next
  case (Cons x rs)
  obtain b' r where x: "x = (b', r)" by (cases x)
  show ?case
  proof (cases "b' = b")
    case True
    with Cons.prems x have "b \<notin> fst ` set rs" by simp
    then have "returned_by b rs = []" by (rule returned_by_absent)
    with x True show ?thesis
      by (cases r) (simp_all add: returned_by_def)
  next
    case False
    with Cons x show ?thesis by (simp add: returned_by_def)
  qed
qed

lemma last_or_empty:
  "xs = [] \<or> (\<exists>ts. xs = [ts]) \<Longrightarrow> (if xs = [] then [] else last xs) = concat xs"
  by auto

lemma connect_sequence_trace:
  "connect_sequence ev bs s = (rs, s') \<Longrightarrow>
     (\<exists>d. trace s' = trace s @ d) \<and>
     (\<forall>b ts. (b, Inr ts) \<in> set rs \<longrightarrow>
        (\<exists>req res v. NetCall req (Inr res) \<in> set (new_effects s s')
           \<and> rpc_method req = ''tools/list''
           \<and> JSON_parse ev (body res) = Inr v
           \<and> formatToolsData (toolsData_of v) = Inr ts))"
proof (induction bs arbitrary: s rs s')
  case Nil
  then show ?case by simp
next
  case (Cons b bs)
  obtain r s1 where c: "connect ev b s = (r, s1)" by (cases "connect ev b s")
  obtain rs1 s2 where q: "connect_sequence ev bs s1 = (rs1, s2)"
    by (cases "connect_sequence ev bs s1")
  from Cons.prems c q have rs: "rs = (b, r) # rs1" and s': "s' = s2" by simp_all
  from connect_trace_grows [OF c] obtain d1 where d1: "trace s1 = trace s @ d1" by blast
  from Cons.IH [OF q] obtain d2 where d2: "trace s2 = trace s1 @ d2"
    and ih: "\<forall>b ts. (b, Inr ts) \<in> set rs1 \<longrightarrow>
        (\<exists>req res v. NetCall req (Inr res) \<in> set (new_effects s1 s2)
           \<and> rpc_method req = ''tools/list''
           \<and> JSON_parse ev (body res) = Inr v
           \<and> formatToolsData (toolsData_of v) = Inr ts)"
    by blast
  have n1: "new_effects s s1 = d1" and n2: "new_effects s1 s2 = d2"
    and n: "new_effects s s2 = d1 @ d2"
    using d1 d2 by (simp_all add: new_effects_def)
  have "\<exists>req res v. NetCall req (Inr res) \<in> set (new_effects s s2)
           \<and> rpc_method req = ''tools/list''
           \<and> JSON_parse ev (body res) = Inr v
           \<and> formatToolsData (toolsData_of v) = Inr ts"
    if m: "(b', Inr ts) \<in> set rs" for b' ts
  proof (cases "(b', Inr ts) = (b, r)")
    case True
    with c have "connect ev b s = (Inr ts, s1)" by simp
    from connect_catalog_from_response [OF this] n1 n show ?thesis by auto
  next
    case False
    with m rs have "(b', Inr ts) \<in> set rs1" by auto
    with ih n2 n show ?thesis by fastforce
  qed
  with d1 d2 s' show ?case by auto
qed

lemmas connect_defs = connect_def connectToStorefrontServer_def connectToStorefrontServer_try_def
  connectToCustomerServer_def connectToCustomerServer_try_def makeJsonRpcRequest_def
  jsonRpcRequest_def formatToolsData_def formatTool_def toolsData_of_def json_headers_def
  auth_headers_def ok_def external_def emit_def

lemma eval_connect_both:
  "fst (connect_sequence env_healthy [StorefrontBackend, CustomerBackend] fresh_state) =
     [(StorefrontBackend, Inr [search_tool, track_tool]),
      (CustomerBackend, Inr [orders_tool, track_tool])]"
  by (simp add: env_healthy_def connect_defs demo_defs Let_def)

lemma eval_connect_thrice:
  "fst (connect_sequence env_healthy [StorefrontBackend, CustomerBackend, StorefrontBackend]
          fresh_state) =
     [(StorefrontBackend, Inr [search_tool, track_tool]),
      (CustomerBackend, Inr [orders_tool, track_tool]),
      (StorefrontBackend, Inr [search_tool, track_tool])]"
  by (simp add: env_healthy_def connect_defs demo_defs Let_def)

lemma fresh_client_new:
  "MCPClient_new env_healthy ''demo.myshopify.com'' ''c1'' ''shop1'' None = Inr (this fresh_state)"
  by (simp add: MCPClient_new_def has_prefix_ci_def has_suffix_ci_def lower_ascii_def
      env_healthy_def demo_defs)

lemma eval_connect_storefront:
  "fst (connect env_healthy StorefrontBackend fresh_state) = Inr [search_tool, track_tool]"
  "fst (connect env_healthy StorefrontBackend (snd (connect env_healthy StorefrontBackend fresh_state)))
     = Inr [search_tool, track_tool]"
  by (simp_all add: env_healthy_def connect_defs demo_defs Let_def)

text \<open>
  C9. On a newly constructed client, after connect calls to distinct servers (each at
  most once, in any order, failed calls included), the merged list is the concatenation
  of the catalogs returned, and its length is the sum of the lengths of the two
  per-server catalogs: nothing is removed when a name occurs twice. Every catalog
  returned is the array the server advertised, normalised element by element: same
  length, same names in the same order, and \<^verbatim>\<open>input_schema\<close> taken from \<^verbatim>\<open>inputSchema\<close>
  when that is present and from \<^verbatim>\<open>input_schema\<close> otherwise.
\<close>

theorem merged_catalog_is_sum:
  assumes fresh: "MCPClient_new ev host cid sid ep = Inr (this s)"
      and once: "distinct bs"
      and run: "connect_sequence ev bs s = (rs, s')"
  shows "tools (this s') = concat (returned rs)
       \<and> length (tools (this s')) =
           length (customerTools (this s')) + length (storefrontTools (this s'))
       \<and> (\<forall>b ts. (b, Inr ts) \<in> set rs \<longrightarrow>
            (\<exists>req res v raw. NetCall req (Inr res) \<in> set (new_effects s s')
               \<and> rpc_method req = ''tools/list''
               \<and> JSON_parse ev (body res) = Inr v
               \<and> toolsData_of v = JArr raw
               \<and> length ts = length raw
               \<and> map name ts = map (\<lambda>t. member t ''name'') raw
               \<and> map input_schema ts =
                   map (\<lambda>t. if truthy (member t ''inputSchema'') then member t ''inputSchema''
                             else member t ''input_schema'') raw))"
proof -
  from MCPClient_new_empty [OF fresh]
  have e: "tools (this s) = []" "customerTools (this s) = []" "storefrontTools (this s) = []"
    by simp_all
  from connect_sequence_tools [OF run] e
  have t: "tools (this s') = concat (returned rs)" and bs: "map fst rs = bs" by simp_all
  from once bs have d: "distinct (map fst rs)" by simp
  from connect_sequence_fields [OF run] e
  have "customerTools (this s') =
          (if returned_by CustomerBackend rs = [] then [] else last (returned_by CustomerBackend rs))"
    and "storefrontTools (this s') =
          (if returned_by StorefrontBackend rs = [] then [] else last (returned_by StorefrontBackend rs))"
    by simp_all
  with returned_by_distinct [OF d, of CustomerBackend]
    returned_by_distinct [OF d, of StorefrontBackend]
  have c: "customerTools (this s') = concat (returned_by CustomerBackend rs)"
    and f: "storefrontTools (this s') = concat (returned_by StorefrontBackend rs)"
    by (simp_all only: last_or_empty)
  have len: "length (tools (this s')) =
           length (customerTools (this s')) + length (storefrontTools (this s'))"
    unfolding t c f by (rule returned_split)
  have link: "\<exists>req res v raw. NetCall req (Inr res) \<in> set (new_effects s s')
               \<and> rpc_method req = ''tools/list''
               \<and> JSON_parse ev (body res) = Inr v
               \<and> toolsData_of v = JArr raw
               \<and> length ts = length raw
               \<and> map name ts = map (\<lambda>t. member t ''name'') raw
               \<and> map input_schema ts =
                   map (\<lambda>t. if truthy (member t ''inputSchema'') then member t ''inputSchema''
                             else member t ''input_schema'') raw"
    if m: "(b, Inr ts) \<in> set rs" for b ts
  proof -
    from connect_sequence_trace [OF run] m
    obtain req res v where q: "NetCall req (Inr res) \<in> set (new_effects s s')"
      "rpc_method req = ''tools/list''" "JSON_parse ev (body res) = Inr v"
      "formatToolsData (toolsData_of v) = Inr ts"
      by blast
    from formatToolsData_array [OF q(4)] obtain raw where raw: "toolsData_of v = JArr raw"
      by blast
    with q(4) have "formatToolsData (JArr raw) = Inr ts" by simp
    from formatToolsData_preserves [OF this] q raw show ?thesis by blast
  qed
  from t len link show ?thesis by blast
qed

theorem merged_catalog_is_sum_witness:
  "MCPClient_new env_healthy ''demo.myshopify.com'' ''c1'' ''shop1'' None = Inr (this fresh_state)
   \<and> distinct [StorefrontBackend, CustomerBackend]
   \<and> tools (this (snd (connect_sequence env_healthy [StorefrontBackend, CustomerBackend]
         fresh_state))) = [search_tool, track_tool, orders_tool, track_tool]
   \<and> (StorefrontBackend, Inr [search_tool, track_tool])
        \<in> set (fst (connect_sequence env_healthy [StorefrontBackend, CustomerBackend] fresh_state))
   \<and> (\<exists>req res v raw.
         NetCall req (Inr res) \<in> set (new_effects fresh_state
           (snd (connect_sequence env_healthy [StorefrontBackend, CustomerBackend] fresh_state)))
         \<and> rpc_method req = ''tools/list''
         \<and> JSON_parse env_healthy (body res) = Inr v
         \<and> toolsData_of v = JArr raw
         \<and> length [search_tool, track_tool] = length raw)"
proof -
  have d: "distinct [StorefrontBackend, CustomerBackend]" by simp
  have run: "connect_sequence env_healthy [StorefrontBackend, CustomerBackend] fresh_state =
     (fst (connect_sequence env_healthy [StorefrontBackend, CustomerBackend] fresh_state),
      snd (connect_sequence env_healthy [StorefrontBackend, CustomerBackend] fresh_state))"
    by simp
  note m = merged_catalog_is_sum [OF fresh_client_new d run]
  from m [THEN conjunct1]
  have a: "tools (this (snd (connect_sequence env_healthy [StorefrontBackend, CustomerBackend]
         fresh_state))) = [search_tool, track_tool, orders_tool, track_tool]"
    unfolding eval_connect_both by simp
  have b: "(StorefrontBackend, Inr [search_tool, track_tool])
        \<in> set (fst (connect_sequence env_healthy [StorefrontBackend, CustomerBackend] fresh_state))"
    unfolding eval_connect_both by simp
  from m [THEN conjunct2, THEN conjunct2, rule_format, OF b]
  have c: "\<exists>req res v raw.
         NetCall req (Inr res) \<in> set (new_effects fresh_state
           (snd (connect_sequence env_healthy [StorefrontBackend, CustomerBackend] fresh_state)))
         \<and> rpc_method req = ''tools/list''
         \<and> JSON_parse env_healthy (body res) = Inr v
         \<and> toolsData_of v = JArr raw
         \<and> length [search_tool, track_tool] = length raw"
    by blast
  from fresh_client_new d a b c show ?thesis by simp
qed

text \<open>
  C10. After any sequence of connect calls on one instance, the merged list is what it
  was before followed by the catalogs the successful calls returned, in call order (on
  a newly constructed client: exactly those catalogs), and each per-server field holds
  the catalog of the last successful call to that server, or what it held before when
  there was none. A single connect call only appends to the merged list, whether it
  succeeds or throws, and two successful calls to the same server append both catalogs.
\<close>

theorem merged_list_accumulates:
  assumes run: "connect_sequence ev bs s = (rs, s')"
  shows "tools (this s') = tools (this s) @ concat (returned rs)
       \<and> customerTools (this s') =
           (if returned_by CustomerBackend rs = [] then customerTools (this s)
            else last (returned_by CustomerBackend rs))
       \<and> storefrontTools (this s') =
           (if returned_by StorefrontBackend rs = [] then storefrontTools (this s)
            else last (returned_by StorefrontBackend rs))
       \<and> (\<forall>host cid sid ep. MCPClient_new ev host cid sid ep = Inr (this s) \<longrightarrow>
             tools (this s') = concat (returned rs))
       \<and> (\<forall>b r s1. connect ev b s = (r, s1) \<longrightarrow>
             (\<exists>ts. tools (this s1) = tools (this s) @ ts))
       \<and> (\<forall>b ts1 s1 ts2 s2. connect ev b s = (Inr ts1, s1) \<and> connect ev b s1 = (Inr ts2, s2) \<longrightarrow>
             tools (this s2) = tools (this s) @ ts1 @ ts2)"
proof (intro conjI allI impI)
  show "tools (this s') = tools (this s) @ concat (returned rs)"
    using connect_sequence_tools [OF run] by simp
  show "customerTools (this s') =
           (if returned_by CustomerBackend rs = [] then customerTools (this s)
            else last (returned_by CustomerBackend rs))"
    using connect_sequence_fields [OF run] by simp
  show "storefrontTools (this s') =
           (if returned_by StorefrontBackend rs = [] then storefrontTools (this s)
            else last (returned_by StorefrontBackend rs))"
    using connect_sequence_fields [OF run] by simp
next
  fix host cid sid ep
  assume "MCPClient_new ev host cid sid ep = Inr (this s)"
  from MCPClient_new_empty [OF this] connect_sequence_tools [OF run]
  show "tools (this s') = concat (returned rs)" by simp
next
  fix b r s1
  assume c: "connect ev b s = (r, s1)"
  show "\<exists>ts. tools (this s1) = tools (this s) @ ts"
  proof (cases r)
    case (Inl e)
    with c connect_failed(1) [of ev b s e s1] show ?thesis by simp
  next
    case (Inr ts)
    with c connect_ok(1) [of ev b s ts s1] show ?thesis by simp
  qed
next
  fix b ts1 s1 ts2 s2
  assume "connect ev b s = (Inr ts1, s1) \<and> connect ev b s1 = (Inr ts2, s2)"
  then show "tools (this s2) = tools (this s) @ ts1 @ ts2"
    using connect_ok(1) [of ev b s ts1 s1] connect_ok(1) [of ev b s1 ts2 s2] by simp
qed

theorem merged_list_accumulates_witness:
  "tools (this (snd (connect_sequence env_healthy
      [StorefrontBackend, CustomerBackend, StorefrontBackend] fresh_state))) =
     [search_tool, track_tool, orders_tool, track_tool, search_tool, track_tool]
   \<and> storefrontTools (this (snd (connect_sequence env_healthy
      [StorefrontBackend, CustomerBackend, StorefrontBackend] fresh_state))) =
     [search_tool, track_tool]
   \<and> tools (this (snd (connect env_healthy StorefrontBackend
        (snd (connect env_healthy StorefrontBackend fresh_state))))) =
     [search_tool, track_tool, search_tool, track_tool]"
proof -
  have run: "connect_sequence env_healthy [StorefrontBackend, CustomerBackend, StorefrontBackend]
       fresh_state =
     (fst (connect_sequence env_healthy [StorefrontBackend, CustomerBackend, StorefrontBackend]
             fresh_state),
      snd (connect_sequence env_healthy [StorefrontBackend, CustomerBackend, StorefrontBackend]
             fresh_state))"
    by simp
  have e: "tools (this fresh_state) = []"
    by (simp add: demo_defs)
  note m = merged_list_accumulates [OF run]
  from m [THEN conjunct2, THEN conjunct2, THEN conjunct2, THEN conjunct1, rule_format,
      OF fresh_client_new]
  have a: "tools (this (snd (connect_sequence env_healthy
      [StorefrontBackend, CustomerBackend, StorefrontBackend] fresh_state))) =
     [search_tool, track_tool, orders_tool, track_tool, search_tool, track_tool]"
    unfolding eval_connect_thrice by simp
  from m [THEN conjunct2, THEN conjunct2, THEN conjunct1]
  have b: "storefrontTools (this (snd (connect_sequence env_healthy
      [StorefrontBackend, CustomerBackend, StorefrontBackend] fresh_state))) =
     [search_tool, track_tool]"
    unfolding eval_connect_thrice by (simp add: returned_by_def)
  have c1: "connect env_healthy StorefrontBackend fresh_state =
      (Inr [search_tool, track_tool], snd (connect env_healthy StorefrontBackend fresh_state))"
    using eval_connect_storefront(1) by (simp add: prod_eq_iff)
  have c2: "connect env_healthy StorefrontBackend (snd (connect env_healthy StorefrontBackend fresh_state)) =
      (Inr [search_tool, track_tool],
       snd (connect env_healthy StorefrontBackend (snd (connect env_healthy StorefrontBackend fresh_state))))"
    using eval_connect_storefront(2) by (simp add: prod_eq_iff)
  from m [THEN conjunct2, THEN conjunct2, THEN conjunct2, THEN conjunct2, THEN conjunct2,
      rule_format, OF conjI, OF c1 c2] e
  have c: "tools (this (snd (connect env_healthy StorefrontBackend
        (snd (connect env_healthy StorefrontBackend fresh_state))))) =
     [search_tool, track_tool, search_tool, track_tool]"
    by simp
  from a b c show ?thesis by simp
qed

section \<open>The chat session\<close>



lemma callTool_trace:
  assumes "callTool ev n a s = (r, s')"
  shows "\<exists>d. trace s' = trace s @ d \<and> (\<forall>e \<in> set d. \<not> is_LlmCall e)"
proof -
  consider (customer) "callCustomerTool ev n a s = (r, s')"
    | (storefront) "callStorefrontTool ev n a s = (r, s')"
    | (unknown) "s' = s"
    using assms by (auto simp: callTool_def split: if_splits)
  then show ?thesis
  proof cases
    case customer
    then show ?thesis
    proof (cases rule: callCustomerTool_run)
      case (threw e)
      then show ?thesis by (intro exI [of _ "new_effects s s'"]) simp
    next
      case (requested lk tok t1 rq out gout cs1 cs2 cs3)
      then show ?thesis
        by (intro exI [of _ "new_effects s s'"]) (auto split: if_splits)
    qed
  next
    case storefront
    then show ?thesis
      unfolding callStorefrontTool_eq
      by (auto simp: Let_def parse_console_def split: sum.splits)
  next
    case unknown
    then show ?thesis by simp
  qed
qed

lemma onToolUse_effects:
  assumes "onToolUse ev sv cid c \<sigma> = (r, \<sigma>')"
  shows "(\<exists>d. trace (sys \<sigma>') = trace (sys \<sigma>) @ d \<and> (\<forall>e \<in> set d. \<not> is_LlmCall e))
       \<and> (\<exists>m evs. sent \<sigma>' = sent \<sigma> @ Ev_tool_use m # evs
             \<and> (\<forall>e \<in> set evs. e \<noteq> Ev_end_turn \<and> \<not> is_Ev_tool_use e))"
proof -
  obtain r1 s2 where c: "callTool ev (tu_name c) (tu_input c)
      (sys (sendMessage (Ev_tool_use (''Calling tool: '' @ tu_name c @ '' with arguments: ''
                             @ JSON_stringify sv (tu_input c))) \<sigma>)) = (r1, s2)"
    by (cases "callTool ev (tu_name c) (tu_input c)
      (sys (sendMessage (Ev_tool_use (''Calling tool: '' @ tu_name c @ '' with arguments: ''
                             @ JSON_stringify sv (tu_input c))) \<sigma>))")
  from callTool_trace [OF c] obtain d where d: "trace s2 = trace (sys \<sigma>) @ d"
    "\<forall>e \<in> set d. \<not> is_LlmCall e"
    by (auto simp: sendMessage_def)
  from assms c d show ?thesis
    unfolding onToolUse_def
    by (auto simp: Let_def sendMessage_def external_def split: sum.splits prod.splits if_splits option.splits)
qed

lemma run_callback_effects:
  assumes "run_callback ev sv cid c \<sigma> = (r, \<sigma>')"
  shows "(\<exists>d. trace (sys \<sigma>') = trace (sys \<sigma>) @ d \<and> (\<forall>e \<in> set d. \<not> is_LlmCall e))
       \<and> (\<exists>evs. sent \<sigma>' = sent \<sigma> @ evs \<and> Ev_end_turn \<notin> set evs
             \<and> length (filter is_Ev_tool_use evs) = (if is_OnToolUse c then 1 else 0))"
proof (cases c)
  case (OnText x)
  with assms show ?thesis
    by (auto simp: run_callback_def onText_def sendMessage_def)
next
  case (OnMessage m)
  with assms show ?thesis
    by (auto simp: run_callback_def onMessage_def sendMessage_def Let_def external_def emit_def
        split: sum.splits)
next
  case (OnToolUse tu)
  with assms have "onToolUse ev sv cid tu \<sigma> = (r, \<sigma>')"
    by (simp add: run_callback_def)
  from onToolUse_effects [OF this] obtain d m evs where
    d: "trace (sys \<sigma>') = trace (sys \<sigma>) @ d" "\<forall>e \<in> set d. \<not> is_LlmCall e"
    and e: "sent \<sigma>' = sent \<sigma> @ Ev_tool_use m # evs"
      "\<forall>e \<in> set evs. e \<noteq> Ev_end_turn \<and> \<not> is_Ev_tool_use e"
    by blast
  from e(2) have "filter is_Ev_tool_use evs = []" "Ev_end_turn \<notin> set evs"
    by (auto simp: filter_empty_conv)
  with e(1) OnToolUse have "sent \<sigma>' = sent \<sigma> @ (Ev_tool_use m # evs)
      \<and> Ev_end_turn \<notin> set (Ev_tool_use m # evs)
      \<and> length (filter is_Ev_tool_use (Ev_tool_use m # evs)) = (if is_OnToolUse c then 1 else 0)"
    by simp
  with d show ?thesis by blast
next
  case (OnContentBlock b)
  with assms show ?thesis
    by (auto simp: run_callback_def onContentBlock_def sendMessage_def split: if_splits)
qed

lemma run_callbacks_effects:
  "run_callbacks ev sv cid script \<sigma> = (r, \<sigma>') \<Longrightarrow>
     (\<exists>d. trace (sys \<sigma>') = trace (sys \<sigma>) @ d \<and> (\<forall>e \<in> set d. \<not> is_LlmCall e))
     \<and> (\<exists>evs. sent \<sigma>' = sent \<sigma> @ evs \<and> Ev_end_turn \<notin> set evs
           \<and> length (filter is_Ev_tool_use evs) \<le> length (filter is_OnToolUse script)
           \<and> (\<not> isl r \<longrightarrow>
                length (filter is_Ev_tool_use evs) = length (filter is_OnToolUse script)))"
proof (induction script arbitrary: \<sigma> r \<sigma>')
  case Nil
  then show ?case by simp
next
  case (Cons c cs)
  obtain r1 \<sigma>1 where c: "run_callback ev sv cid c \<sigma> = (r1, \<sigma>1)"
    by (cases "run_callback ev sv cid c \<sigma>")
  from run_callback_effects [OF c] obtain d1 evs1 where
    d1: "trace (sys \<sigma>1) = trace (sys \<sigma>) @ d1" "\<forall>e \<in> set d1. \<not> is_LlmCall e"
    and e1: "sent \<sigma>1 = sent \<sigma> @ evs1" "Ev_end_turn \<notin> set evs1"
      "length (filter is_Ev_tool_use evs1) = (if is_OnToolUse c then 1 else 0)"
    by blast
  show ?case
  proof (cases r1)
    case (Inl e)
    with Cons.prems c have "r = Inl e" "\<sigma>' = \<sigma>1" by simp_all
    with d1 e1 show ?thesis by auto
  next
    case (Inr u)
    with Cons.prems c have rest: "run_callbacks ev sv cid cs \<sigma>1 = (r, \<sigma>')" by simp
    from Cons.IH [OF rest] obtain d2 evs2 where
      d2: "trace (sys \<sigma>') = trace (sys \<sigma>1) @ d2" "\<forall>e \<in> set d2. \<not> is_LlmCall e"
      and e2: "sent \<sigma>' = sent \<sigma>1 @ evs2" "Ev_end_turn \<notin> set evs2"
        "length (filter is_Ev_tool_use evs2) \<le> length (filter is_OnToolUse cs)"
        "\<not> isl r \<longrightarrow> length (filter is_Ev_tool_use evs2) = length (filter is_OnToolUse cs)"
      by blast
    have "trace (sys \<sigma>') = trace (sys \<sigma>) @ (d1 @ d2)" "\<forall>e \<in> set (d1 @ d2). \<not> is_LlmCall e"
      using d1 d2 by auto
    moreover have "sent \<sigma>' = sent \<sigma> @ (evs1 @ evs2)" "Ev_end_turn \<notin> set (evs1 @ evs2)"
      "length (filter is_Ev_tool_use (evs1 @ evs2)) \<le> length (filter is_OnToolUse (c # cs))"
      "\<not> isl r \<longrightarrow>
         length (filter is_Ev_tool_use (evs1 @ evs2)) = length (filter is_OnToolUse (c # cs))"
      using e1 e2 by auto
    ultimately show ?thesis by blast
  qed
qed

lemma streamConversation_call_effects:
  assumes "streamConversation_call ev sv cid pt \<sigma> = (r, \<sigma>')"
  shows "\<exists>d. trace (sys \<sigma>') = trace (sys \<sigma>) @
                LlmCall (conversationHistory \<sigma>) pt (tools (this (sys \<sigma>)))
                  (snd (streamConversation sv (tick (sys \<sigma>)) (conversationHistory \<sigma>) pt
                          (tools (this (sys \<sigma>))))) # d
              \<and> (\<forall>e \<in> set d. \<not> is_LlmCall e)"
    and "\<forall>fm. r = Inr fm \<longrightarrow>
           snd (streamConversation sv (tick (sys \<sigma>)) (conversationHistory \<sigma>) pt
                  (tools (this (sys \<sigma>)))) = Inr fm"
    and "\<exists>evs. sent \<sigma>' = sent \<sigma> @ evs \<and> Ev_end_turn \<notin> set evs
           \<and> (\<not> isl r \<longrightarrow>
                length (filter is_Ev_tool_use evs) =
                length (filter is_OnToolUse (fst (streamConversation sv (tick (sys \<sigma>))
                     (conversationHistory \<sigma>) pt (tools (this (sys \<sigma>)))))))"
proof -
  obtain script outcome where p: "streamConversation sv (tick (sys \<sigma>)) (conversationHistory \<sigma>) pt
      (tools (this (sys \<sigma>))) = (script, outcome)"
    by (cases "streamConversation sv (tick (sys \<sigma>)) (conversationHistory \<sigma>) pt
      (tools (this (sys \<sigma>)))")
  define \<sigma>1 where "\<sigma>1 = \<sigma>\<lparr>sys := external (LlmCall (conversationHistory \<sigma>) pt
                                             (tools (this (sys \<sigma>))) outcome) (sys \<sigma>)\<rparr>"
  obtain r2 \<sigma>2 where c: "run_callbacks ev sv cid script \<sigma>1 = (r2, \<sigma>2)"
    by (cases "run_callbacks ev sv cid script \<sigma>1")
  from assms p c have s': "\<sigma>' = \<sigma>2"
    and r: "r = (case r2 of Inl e \<Rightarrow> Inl e | Inr u \<Rightarrow> outcome)"
    by (auto simp: streamConversation_call_def Let_def \<sigma>1_def split: sum.splits)
  from run_callbacks_effects [OF c] obtain d evs where
    d: "trace (sys \<sigma>2) = trace (sys \<sigma>1) @ d" "\<forall>e \<in> set d. \<not> is_LlmCall e"
    and e: "sent \<sigma>2 = sent \<sigma>1 @ evs" "Ev_end_turn \<notin> set evs"
      "\<not> isl r2 \<longrightarrow> length (filter is_Ev_tool_use evs) = length (filter is_OnToolUse script)"
    by blast
  show "\<exists>d. trace (sys \<sigma>') = trace (sys \<sigma>) @
                LlmCall (conversationHistory \<sigma>) pt (tools (this (sys \<sigma>)))
                  (snd (streamConversation sv (tick (sys \<sigma>)) (conversationHistory \<sigma>) pt
                          (tools (this (sys \<sigma>))))) # d
              \<and> (\<forall>e \<in> set d. \<not> is_LlmCall e)"
    using d s' p by (auto simp: \<sigma>1_def external_def)
  show "\<forall>fm. r = Inr fm \<longrightarrow>
           snd (streamConversation sv (tick (sys \<sigma>)) (conversationHistory \<sigma>) pt
                  (tools (this (sys \<sigma>)))) = Inr fm"
    using r p by (auto split: sum.splits)
  have "\<not> isl r \<longrightarrow> \<not> isl r2"
    using r by (auto split: sum.splits)
  with e s' p show "\<exists>evs. sent \<sigma>' = sent \<sigma> @ evs \<and> Ev_end_turn \<notin> set evs
           \<and> (\<not> isl r \<longrightarrow>
                length (filter is_Ev_tool_use evs) =
                length (filter is_OnToolUse (fst (streamConversation sv (tick (sys \<sigma>))
                     (conversationHistory \<sigma>) pt (tools (this (sys \<sigma>)))))))"
    by (auto simp: \<sigma>1_def)
qed




lemma connectMcpServers_session:
  "sent (connectMcpServers ev ep \<sigma>) = sent \<sigma>
   \<and> conversationHistory (connectMcpServers ev ep \<sigma>) = conversationHistory \<sigma>
   \<and> productsToDisplay (connectMcpServers ev ep \<sigma>) = productsToDisplay \<sigma>"
  by (auto simp: connectMcpServers_def split: prod.splits sum.splits)



lemma new_effects_extend: "trace s1 = trace s @ d \<Longrightarrow> new_effects s s1 = d"
  by (simp add: new_effects_def)

lemma connectToStorefrontServer_no_warning:
  assumes "connectToStorefrontServer ev s = (r, s')"
  shows "trace s' = trace s @ new_effects s s' \<and> Console Warn m \<notin> set (new_effects s s')"
  using assms unfolding connectToStorefrontServer_eq
  by (auto simp: Let_def new_effects_def parse_console_def split: sum.splits if_splits)

lemma connectToCustomerServer_no_warning:
  assumes "connectToCustomerServer ev s = (r, s')"
  shows "trace s' = trace s @ new_effects s s' \<and> Console Warn m \<notin> set (new_effects s s')"
  using assms
  unfolding connectToCustomerServer_def connectToCustomerServer_try_def makeJsonRpcRequest_eq
  by (auto simp: Let_def emit_def external_def new_effects_def parse_console_def
      split: sum.splits prod.splits if_splits option.splits)

lemma prepareConversation_throws:
  assumes "prepareConversation ev sv args \<sigma>0 = (Inl e, \<sigma>4)"
  shows "(\<exists>t c r m. saveMessage sv t c r m = Inl e) \<or> (\<exists>t c. getConversationHistory sv t c = Inl e)"
  using assms
  by (auto simp: prepareConversation_def Let_def split: sum.splits)

lemma prepareConversation_catalog:
  assumes "prepareConversation ev sv args \<sigma>0 = (r, \<sigma>4)"
  shows "this (sys \<sigma>4) =
           this (sys (connectMcpServers ev (arg_customerMcpEndpoint args)
                        (sendMessage (Ev_id (arg_conversationId args)) \<sigma>0)))"
  using assms
  by (auto simp: prepareConversation_def Let_def external_def split: sum.splits)

text \<open>
  C6, as amended. Connecting to the servers never throws and sends nothing on the
  stream. The storefront server is asked first. When that call fails, the failure is
  logged as a warning, the customer server is not asked, and the merged catalog is
  what it was before (empty on a new client). When it succeeds and the customer server
  is switched off, or is asked and answers, the merged catalog gains the catalogs
  returned and no warning is logged; when the customer call fails, the failure is logged
  as a warning and the merged catalog keeps the storefront catalog. The preparation of
  the conversation can then only throw an error of the database, and the first call of
  the LLM provider is given the merged catalog as the connection left it.
\<close>

theorem discovery_failure_degrades:
  "sent (connectMcpServers ev ep \<sigma>) = sent \<sigma>
   \<and> (\<forall>e s1. connectToStorefrontServer ev (sys \<sigma>) = (Inl e, s1) \<longrightarrow>
         sys (connectMcpServers ev ep \<sigma>) =
           emit (Console Warn (''Failed to connect to MCP servers, continuing without tools: ''
                                 @ message e)) s1
         \<and> tools (this (sys (connectMcpServers ev ep \<sigma>))) = tools (this (sys \<sigma>)))
   \<and> (\<forall>st s1. connectToStorefrontServer ev (sys \<sigma>) = (Inr st, s1)
           \<and> \<not> customer_mcp_enabled ev ep \<longrightarrow>
         tools (this (sys (connectMcpServers ev ep \<sigma>))) = tools (this (sys \<sigma>)) @ st
         \<and> (\<forall>m. Console Warn m \<notin> set (new_effects (sys \<sigma>) (sys (connectMcpServers ev ep \<sigma>)))))
   \<and> (\<forall>st s1 e s2. connectToStorefrontServer ev (sys \<sigma>) = (Inr st, s1)
           \<and> customer_mcp_enabled ev ep \<and> connectToCustomerServer ev s1 = (Inl e, s2) \<longrightarrow>
         sys (connectMcpServers ev ep \<sigma>) =
           emit (Console Warn (''Failed to connect to MCP servers, continuing without tools: ''
                                 @ message e)) s2
         \<and> tools (this (sys (connectMcpServers ev ep \<sigma>))) = tools (this (sys \<sigma>)) @ st)
   \<and> (\<forall>st s1 cu s2. connectToStorefrontServer ev (sys \<sigma>) = (Inr st, s1)
           \<and> customer_mcp_enabled ev ep \<and> connectToCustomerServer ev s1 = (Inr cu, s2) \<longrightarrow>
         tools (this (sys (connectMcpServers ev ep \<sigma>))) = tools (this (sys \<sigma>)) @ st @ cu
         \<and> (\<forall>m. Console Warn m \<notin> set (new_effects (sys \<sigma>) (sys (connectMcpServers ev ep \<sigma>)))))
   \<and> (\<forall>sv args \<sigma>0 e \<sigma>4. prepareConversation ev sv args \<sigma>0 = (Inl e, \<sigma>4) \<longrightarrow>
         (\<exists>t c r m. saveMessage sv t c r m = Inl e) \<or> (\<exists>t c. getConversationHistory sv t c = Inl e))
   \<and> (\<forall>sv args \<sigma>0 \<sigma>4 r \<sigma>5.
         prepareConversation ev sv args \<sigma>0 = (Inr (), \<sigma>4)
           \<and> streamConversation_call ev sv (arg_conversationId args) (arg_promptType args) \<sigma>4
               = (r, \<sigma>5) \<longrightarrow>
         (\<exists>out d. new_effects (sys \<sigma>4) (sys \<sigma>5) =
            LlmCall (conversationHistory \<sigma>4) (arg_promptType args)
              (tools (this (sys (connectMcpServers ev (arg_customerMcpEndpoint args)
                                   (sendMessage (Ev_id (arg_conversationId args)) \<sigma>0)))))
              out # d))"
proof (intro conjI allI impI)
  show "sent (connectMcpServers ev ep \<sigma>) = sent \<sigma>"
    using connectMcpServers_session [of ev ep \<sigma>] by simp
next
  fix e s1
  assume h: "connectToStorefrontServer ev (sys \<sigma>) = (Inl e, s1)"
  then show "sys (connectMcpServers ev ep \<sigma>) =
           emit (Console Warn (''Failed to connect to MCP servers, continuing without tools: ''
                                 @ message e)) s1"
    by (simp add: connectMcpServers_def connectMcpServers_try_def)
  with connectToStorefrontServer_fields [OF h]
  show "tools (this (sys (connectMcpServers ev ep \<sigma>))) = tools (this (sys \<sigma>))"
    by (simp add: emit_def)
next
  fix st s1
  assume h: "connectToStorefrontServer ev (sys \<sigma>) = (Inr st, s1) \<and> \<not> customer_mcp_enabled ev ep"
  then have sf: "connectToStorefrontServer ev (sys \<sigma>) = (Inr st, s1)" by simp
  from h have s': "sys (connectMcpServers ev ep \<sigma>) =
      emit (Console Log (''Connected to MCP with '' @ dec (length st) @ '' tools'')) s1"
    by (simp add: connectMcpServers_def connectMcpServers_try_def Let_def)
  with connectToStorefrontServer_fields [OF sf]
  show "tools (this (sys (connectMcpServers ev ep \<sigma>))) = tools (this (sys \<sigma>)) @ st"
    by (simp add: emit_def)
  fix m
  from connectToStorefrontServer_no_warning [OF sf, of m]
  obtain d1 where d1: "trace s1 = trace (sys \<sigma>) @ d1" "Console Warn m \<notin> set d1"
    by blast
  from s' d1(1) have "trace (sys (connectMcpServers ev ep \<sigma>)) = trace (sys \<sigma>) @
      (d1 @ [Console Log (''Connected to MCP with '' @ dec (length st) @ '' tools'')])"
    by (simp add: emit_def)
  from new_effects_extend [OF this] d1(2)
  show "Console Warn m \<notin> set (new_effects (sys \<sigma>) (sys (connectMcpServers ev ep \<sigma>)))"
    by simp
next
  fix st s1 e s2
  assume h: "connectToStorefrontServer ev (sys \<sigma>) = (Inr st, s1)
           \<and> customer_mcp_enabled ev ep \<and> connectToCustomerServer ev s1 = (Inl e, s2)"
  then have sf: "connectToStorefrontServer ev (sys \<sigma>) = (Inr st, s1)"
    and cu: "connectToCustomerServer ev s1 = (Inl e, s2)" by simp_all
  from h show s': "sys (connectMcpServers ev ep \<sigma>) =
           emit (Console Warn (''Failed to connect to MCP servers, continuing without tools: ''
                                 @ message e)) s2"
    by (simp add: connectMcpServers_def connectMcpServers_try_def)
  with connectToStorefrontServer_fields [OF sf] connectToCustomerServer_fields [OF cu]
  show "tools (this (sys (connectMcpServers ev ep \<sigma>))) = tools (this (sys \<sigma>)) @ st"
    by (simp add: emit_def)
next
  fix st s1 cu s2
  assume h: "connectToStorefrontServer ev (sys \<sigma>) = (Inr st, s1)
           \<and> customer_mcp_enabled ev ep \<and> connectToCustomerServer ev s1 = (Inr cu, s2)"
  then have sf: "connectToStorefrontServer ev (sys \<sigma>) = (Inr st, s1)"
    and cu: "connectToCustomerServer ev s1 = (Inr cu, s2)" by simp_all
  from h have s': "\<exists>logs. trace (sys (connectMcpServers ev ep \<sigma>)) = trace s2 @ logs
      \<and> (\<forall>m. Console Warn m \<notin> set logs)
      \<and> this (sys (connectMcpServers ev ep \<sigma>)) = this s2"
    by (auto simp: connectMcpServers_def connectMcpServers_try_def Let_def emit_def)
  with connectToStorefrontServer_fields [OF sf] connectToCustomerServer_fields [OF cu]
  show "tools (this (sys (connectMcpServers ev ep \<sigma>))) = tools (this (sys \<sigma>)) @ st @ cu"
    by auto
  fix m
  from s' obtain logs where logs: "trace (sys (connectMcpServers ev ep \<sigma>)) = trace s2 @ logs"
    "\<forall>m. Console Warn m \<notin> set logs" by blast
  from connectToStorefrontServer_no_warning [OF sf, of m]
    connectToCustomerServer_no_warning [OF cu, of m]
  obtain d1 d2 where d: "trace s1 = trace (sys \<sigma>) @ d1" "Console Warn m \<notin> set d1"
    "trace s2 = trace s1 @ d2" "Console Warn m \<notin> set d2"
    by blast
  with logs have "trace (sys (connectMcpServers ev ep \<sigma>)) = trace (sys \<sigma>) @ (d1 @ d2 @ logs)"
    by simp
  from new_effects_extend [OF this] d logs
  show "Console Warn m \<notin> set (new_effects (sys \<sigma>) (sys (connectMcpServers ev ep \<sigma>)))"
    by simp
next
  fix sv args \<sigma>0 e \<sigma>4
  assume "prepareConversation ev sv args \<sigma>0 = (Inl e, \<sigma>4)"
  then show "(\<exists>t c r m. saveMessage sv t c r m = Inl e) \<or> (\<exists>t c. getConversationHistory sv t c = Inl e)"
    by (rule prepareConversation_throws)
next
  fix sv args \<sigma>0 \<sigma>4 r \<sigma>5
  assume h: "prepareConversation ev sv args \<sigma>0 = (Inr (), \<sigma>4)
           \<and> streamConversation_call ev sv (arg_conversationId args) (arg_promptType args) \<sigma>4
               = (r, \<sigma>5)"
  then have prep: "prepareConversation ev sv args \<sigma>0 = (Inr (), \<sigma>4)"
    and step: "streamConversation_call ev sv (arg_conversationId args) (arg_promptType args) \<sigma>4
               = (r, \<sigma>5)" by simp_all
  from streamConversation_call_effects(1) [OF step] prepareConversation_catalog [OF prep]
  show "\<exists>out d. new_effects (sys \<sigma>4) (sys \<sigma>5) =
            LlmCall (conversationHistory \<sigma>4) (arg_promptType args)
              (tools (this (sys (connectMcpServers ev (arg_customerMcpEndpoint args)
                                   (sendMessage (Ev_id (arg_conversationId args)) \<sigma>0)))))
              out # d"
    by (auto simp: new_effects_def)
qed

text \<open>
  The claim as stated fails when the storefront server is the one that fails: the
  customer server, which is switched on and would have answered with two tools, is never
  asked, and the session goes on with an empty catalog.
\<close>

theorem storefront_failure_skips_customer_counterexample:
  "customer_mcp_enabled env_storefront_down (Some customer_url)
   \<and> fst (connectToStorefrontServer env_storefront_down fresh_state)
       = Inl (JsError ''fetch failed'' None)
   \<and> fst (connectToCustomerServer env_storefront_down
             (snd (connectToStorefrontServer env_storefront_down fresh_state)))
       = Inr [orders_tool, track_tool]
   \<and> tools (this (sys (connectMcpServers env_storefront_down (Some customer_url) fresh_session)))
       = []
   \<and> session_summary (chatSession_try 1 env_storefront_down sv_greets demo_args fresh_session) =
       Some (Inr (),
             [Ev_id ''c1'', Ev_chunk ''Hi!'',
              Ev_content_block_complete (JObj [(''type'', JStr ''text''), (''text'', JStr ''Hi!'')]),
              Ev_message_complete, Ev_end_turn],
             [Inr greeting],
             [])"
  by code_simp

lemma eval_storefront_down:
  "fst (connectToStorefrontServer env_storefront_down (sys fresh_session))
     = Inl (JsError ''fetch failed'' None)"
  by code_simp

lemma eval_customer_down:
  "customer_mcp_enabled env_customer_down (Some customer_url)"
  "fst (connectToStorefrontServer env_customer_down (sys fresh_session))
     = Inr [search_tool, track_tool]"
  "fst (connectToCustomerServer env_customer_down
          (snd (connectToStorefrontServer env_customer_down (sys fresh_session))))
     = Inl (JsError ''fetch failed'' None)"
  "tools (this (sys fresh_session)) = []"
  by code_simp+

theorem discovery_failure_degrades_witness:
  "fst (connectToStorefrontServer env_storefront_down (sys fresh_session))
     = Inl (JsError ''fetch failed'' None)
   \<and> tools (this (sys (connectMcpServers env_storefront_down (Some customer_url) fresh_session)))
       = []
   \<and> last (trace (sys (connectMcpServers env_storefront_down (Some customer_url) fresh_session)))
       = Console Warn ''Failed to connect to MCP servers, continuing without tools: fetch failed''
   \<and> customer_mcp_enabled env_customer_down (Some customer_url)
   \<and> fst (connectToCustomerServer env_customer_down
             (snd (connectToStorefrontServer env_customer_down (sys fresh_session))))
       = Inl (JsError ''fetch failed'' None)
   \<and> tools (this (sys (connectMcpServers env_customer_down (Some customer_url) fresh_session)))
       = [search_tool, track_tool]
   \<and> last (trace (sys (connectMcpServers env_customer_down (Some customer_url) fresh_session)))
       = Console Warn ''Failed to connect to MCP servers, continuing without tools: fetch failed''"
proof -
  let ?e = "JsError ''fetch failed'' None"
  let ?s1 = "snd (connectToStorefrontServer env_storefront_down (sys fresh_session))"
  have sf: "connectToStorefrontServer env_storefront_down (sys fresh_session) = (Inl ?e, ?s1)"
    using eval_storefront_down by (simp add: prod_eq_iff)
  note a = discovery_failure_degrades [of env_storefront_down "Some customer_url" fresh_session,
      THEN conjunct2, THEN conjunct1, rule_format, OF sf]
  from a [THEN conjunct2] have a1: "tools (this (sys (connectMcpServers env_storefront_down (Some customer_url)
      fresh_session))) = []"
    using eval_customer_down(4) by simp
  from a [THEN conjunct1] have a2: "last (trace (sys (connectMcpServers env_storefront_down (Some customer_url)
      fresh_session)))
       = Console Warn ''Failed to connect to MCP servers, continuing without tools: fetch failed''"
    by (simp add: emit_def)
  let ?t1 = "snd (connectToStorefrontServer env_customer_down (sys fresh_session))"
  let ?t2 = "snd (connectToCustomerServer env_customer_down ?t1)"
  have sf': "connectToStorefrontServer env_customer_down (sys fresh_session)
      = (Inr [search_tool, track_tool], ?t1)"
    using eval_customer_down(2) by (simp add: prod_eq_iff)
  have cu': "connectToCustomerServer env_customer_down ?t1 = (Inl ?e, ?t2)"
    using eval_customer_down(3) by (simp add: prod_eq_iff)
  note b = discovery_failure_degrades [of env_customer_down "Some customer_url" fresh_session,
      THEN conjunct2, THEN conjunct2, THEN conjunct2, THEN conjunct1, rule_format,
      OF conjI [OF sf' conjI [OF eval_customer_down(1) cu']]]
  from b [THEN conjunct2] have b1: "tools (this (sys (connectMcpServers env_customer_down (Some customer_url)
      fresh_session))) = [search_tool, track_tool]"
    using eval_customer_down(4) by simp
  from b [THEN conjunct1] have b2: "last (trace (sys (connectMcpServers env_customer_down (Some customer_url)
      fresh_session)))
       = Console Warn ''Failed to connect to MCP servers, continuing without tools: fetch failed''"
    by (simp add: emit_def)
  from eval_storefront_down a1 a2 eval_customer_down(1,3) b1 b2 show ?thesis by simp
qed








end
